theory Spec2Isabelle
  imports Main "HOL-Library.AList"
begin

section \<open>Data model (src/types/index.ts)\<close>

text \<open>
  Strings are byte lists (UTF-8). Timestamps are the millisecond counts of
  \<^verbatim>\<open>Date.now()\<close>, modelled as unbounded integers. A method that reads the clock
  takes its readings as an argument: \<open>clock k\<close> is what the call of \<^verbatim>\<open>Date.now()\<close>
  number \<open>k\<close> returns during the method call, counted from 0. Nothing is assumed
  of how two readings compare.
\<close>

type_synonym clock = "nat \<Rightarrow> int"

datatype role = User | Assistant | System

record ConversationMessage =
  role :: role
  content :: string
  timestamp :: int

text \<open>
  \<open>activeServers\<close> is a JavaScript \<^verbatim>\<open>Set<string>\<close>: it iterates in insertion
  order and holds no duplicates, so it is a list that \<open>set_add\<close> and \<open>set_delete\<close>
  below keep free of duplicates.
\<close>

record Session =
  userId :: string
  conversationHistory :: "ConversationMessage list"
  activeServers :: "string list"
  createdAt :: int
  lastActivity :: int

definition set_add :: "'a \<Rightarrow> 'a list \<Rightarrow> 'a list" where
  "set_add x xs = (if x \<in> set xs then xs else xs @ [x])"

definition set_delete :: "'a \<Rightarrow> 'a list \<Rightarrow> 'a list" where
  "set_delete x xs = filter (\<lambda>y. y \<noteq> x) xs"

section \<open>Session manager (src/session/manager.ts)\<close>

text \<open>
  The class has one mutable field, the map \<open>sessions\<close> from user id to session.
  A session object is shared between the map and the caller; here every mutation of
  it is written back into the map. Calls of the logger are left out: they change
  neither the sessions nor the control flow.
\<close>

record SessionManager =
  sessions :: "string \<rightharpoonup> Session"

definition SESSION_TIMEOUT :: int where
  "SESSION_TIMEOUT = 30 * 60 * 1000"

text \<open>
  \<^verbatim>\<open>getSession\<close> reads the clock twice when it creates a session, first for
  \<open>createdAt\<close> and then for \<open>lastActivity\<close>, and once when the session is there.
\<close>

definition getSession :: "clock \<Rightarrow> string \<Rightarrow> SessionManager \<Rightarrow> Session \<times> SessionManager" where
  "getSession clock uid sm =
     (case sessions sm uid of
        None \<Rightarrow>
          (let session = \<lparr>userId = uid, conversationHistory = [], activeServers = [],
                           createdAt = clock 0, lastActivity = clock 1\<rparr>
           in (session, sm\<lparr>sessions := (sessions sm)(uid \<mapsto> session)\<rparr>))
      | Some s \<Rightarrow>
          (let session = s\<lparr>lastActivity := clock 0\<rparr>
           in (session, sm\<lparr>sessions := (sessions sm)(uid \<mapsto> session)\<rparr>)))"

text \<open>\<^verbatim>\<open>xs.slice(-20)\<close> on an array of more than 20 elements: its last 20.\<close>

definition slice_last :: "nat \<Rightarrow> 'a list \<Rightarrow> 'a list" where
  "slice_last n xs = drop (length xs - n) xs"

definition addMessage ::
  "clock \<Rightarrow> string \<Rightarrow> ConversationMessage \<Rightarrow> SessionManager \<Rightarrow> SessionManager" where
  "addMessage clock uid msg sm =
     (case getSession clock uid sm of
        (session, sm1) \<Rightarrow>
          (let pushed = conversationHistory session @ [msg];
               kept = (if length pushed > 20 then slice_last 20 pushed else pushed)
           in sm1\<lparr>sessions := (sessions sm1)(uid \<mapsto> session\<lparr>conversationHistory := kept\<rparr>)\<rparr>))"

definition clearHistory :: "clock \<Rightarrow> string \<Rightarrow> SessionManager \<Rightarrow> SessionManager" where
  "clearHistory clock uid sm =
     (case getSession clock uid sm of
        (session, sm1) \<Rightarrow>
          sm1\<lparr>sessions := (sessions sm1)(uid \<mapsto> session\<lparr>conversationHistory := []\<rparr>)\<rparr>)"

definition addActiveServer :: "clock \<Rightarrow> string \<Rightarrow> string \<Rightarrow> SessionManager \<Rightarrow> SessionManager" where
  "addActiveServer clock uid sid sm =
     (case getSession clock uid sm of
        (session, sm1) \<Rightarrow>
          sm1\<lparr>sessions := (sessions sm1)
                 (uid \<mapsto> session\<lparr>activeServers := set_add sid (activeServers session)\<rparr>)\<rparr>)"

definition removeActiveServer :: "clock \<Rightarrow> string \<Rightarrow> string \<Rightarrow> SessionManager \<Rightarrow> SessionManager" where
  "removeActiveServer clock uid sid sm =
     (case getSession clock uid sm of
        (session, sm1) \<Rightarrow>
          sm1\<lparr>sessions := (sessions sm1)
                 (uid \<mapsto> session\<lparr>activeServers := set_delete sid (activeServers session)\<rparr>)\<rparr>)"

definition getActiveServers :: "clock \<Rightarrow> string \<Rightarrow> SessionManager \<Rightarrow> string list \<times> SessionManager" where
  "getActiveServers clock uid sm =
     (case getSession clock uid sm of (session, sm1) \<Rightarrow> (activeServers session, sm1))"

definition deleteSession :: "string \<Rightarrow> SessionManager \<Rightarrow> SessionManager" where
  "deleteSession uid sm = sm\<lparr>sessions := (sessions sm)(uid := None)\<rparr>"

text \<open>
  The sweep reads the clock once, into \<open>now\<close>, then visits every entry of the map
  and deletes the one it is on when the test holds; deleting the visited entry of a
  JavaScript \<^verbatim>\<open>Map\<close> does not disturb the iteration, so each entry is tested once
  against the same \<open>now\<close>.
\<close>

definition cleanupInactiveSessions :: "int \<Rightarrow> SessionManager \<Rightarrow> SessionManager" where
  "cleanupInactiveSessions now sm =
     sm\<lparr>sessions :=
          (\<lambda>uid. case sessions sm uid of
                   None \<Rightarrow> None
                 | Some session \<Rightarrow>
                     if now - lastActivity session > SESSION_TIMEOUT then None
                     else Some session)\<rparr>"

text \<open>A run of \<^verbatim>\<open>addMessage\<close> calls for one user, each with its own clock readings.\<close>

definition addMessages ::
  "(clock \<times> ConversationMessage) list \<Rightarrow> string \<Rightarrow> SessionManager \<Rightarrow> SessionManager" where
  "addMessages calls uid sm = foldl (\<lambda>st (clock, msg). addMessage clock uid msg st) sm calls"

text \<open>The history held for a user: empty when the user has no session.\<close>

definition historyOf :: "SessionManager \<Rightarrow> string \<Rightarrow> ConversationMessage list" where
  "historyOf sm uid = (case sessions sm uid of None \<Rightarrow> [] | Some s \<Rightarrow> conversationHistory s)"

section \<open>MCP client (src/mcp/client.ts)\<close>

text \<open>
  A thrown JavaScript error: its \<^verbatim>\<open>message\<close> and its \<^verbatim>\<open>code\<close> property, which is
  absent, a number (the SDK's protocol errors) or a string (the file system's).
\<close>

datatype err_code = NoCode | NumCode int | StrCode string

record js_error =
  message :: string
  code :: err_code

text \<open>\<^verbatim>\<open>new Error(msg)\<close>\<close>

definition Error :: "string \<Rightarrow> js_error" where
  "Error msg = \<lparr>message = msg, code = NoCode\<rparr>"

record MCPServerConfig =
  server_id :: string
  server_name :: string
  command :: string
  args :: "string list"
  env :: "(string \<times> string) list option"
  autoConnect :: "bool option"

record JSONSchema =
  schema_type :: string
  properties :: "(string \<times> string) list option"
  required :: "string list option"

record MCPTool =
  name :: string
  description :: string
  inputSchema :: JSONSchema

text \<open>A tool as the SDK's \<^verbatim>\<open>listTools\<close> reports it: the description may be missing.\<close>

record SDKTool =
  sdk_name :: string
  sdk_description :: "string option"
  sdk_inputSchema :: JSONSchema

text \<open>
  The result of a tool call. The bot reads it only when it is an object, and then
  reads its \<^verbatim>\<open>content\<close> array (a missing array counts as empty); of each item it
  reads \<^verbatim>\<open>type\<close> and \<^verbatim>\<open>text\<close>.
\<close>

record content_item =
  item_type :: string
  item_text :: string

datatype tool_result = NotAnObject | ResultObject "content_item list"

text \<open>
  The SDK's \<^verbatim>\<open>Client\<close> and \<^verbatim>\<open>StdioClientTransport\<close> objects are external; the model
  keeps their identity only.
\<close>

type_synonym Client = nat
type_synonym StdioClientTransport = nat

datatype log_entry =
    LogConnecting string string
  | LogConnected string "string list"
  | LogConnectFailed string js_error
  | LogDisconnected string
  | LogDisconnectFailed string js_error
  | LogExecuting string "(string \<times> string) list"
  | LogExecuted string
  | LogExecuteFailed string js_error

text \<open>
  The three fields are JavaScript \<^verbatim>\<open>Map\<close>s, which iterate in insertion order:
  association lists, where \<^verbatim>\<open>set\<close> is \<^const>\<open>AList.update\<close> (a present key keeps its
  place, a new key goes last), \<^verbatim>\<open>delete\<close> is \<^const>\<open>AList.delete\<close> and \<^verbatim>\<open>get\<close> is
  \<^const>\<open>map_of\<close>. \<open>logged\<close> collects what the methods hand to the logger.
\<close>

record MCPClient =
  clients :: "(string \<times> Client) list"
  transports :: "(string \<times> StdioClientTransport) list"
  availableTools :: "(string \<times> MCPTool list) list"
  logged :: "log_entry list"

definition newMCPClient :: MCPClient where
  "newMCPClient = \<lparr>clients = [], transports = [], availableTools = [], logged = []\<rparr>"

definition log_add :: "log_entry \<Rightarrow> MCPClient \<Rightarrow> MCPClient" where
  "log_add entry st = st\<lparr>logged := logged st @ [entry]\<rparr>"

text \<open>
  What the outside world answers during one \<^verbatim>\<open>connect\<close>: the two objects created,
  whether \<^verbatim>\<open>client.connect(transport)\<close> throws, and what \<^verbatim>\<open>client.listTools()\<close>
  returns or throws.
\<close>

record connect_io =
  new_client :: Client
  new_transport :: StdioClientTransport
  client_connect :: "js_error + unit"
  client_listTools :: "js_error + SDKTool list"

definition toMCPTool :: "SDKTool \<Rightarrow> MCPTool" where
  "toMCPTool tool =
     \<lparr>name = sdk_name tool,
      description = (case sdk_description tool of None \<Rightarrow> [] | Some d \<Rightarrow> d),
      inputSchema = sdk_inputSchema tool\<rparr>"

text \<open>
  Every method returns what the promise settles to (\<open>Inl\<close> the error it rejects
  with) and the state it leaves behind.
\<close>

definition connect ::
  "MCPServerConfig \<Rightarrow> connect_io \<Rightarrow> MCPClient \<Rightarrow> (js_error + unit) \<times> MCPClient" where
  "connect config io st =
     (let st0 = log_add (LogConnecting (server_name config) (server_id config)) st in
      case client_connect io of
        Inl error \<Rightarrow> (Inl error, log_add (LogConnectFailed (server_name config) error) st0)
      | Inr _ \<Rightarrow>
          (let st1 = st0\<lparr>clients := AList.update (server_id config) (new_client io) (clients st0)\<rparr>;
               st2 = st1\<lparr>transports :=
                          AList.update (server_id config) (new_transport io) (transports st1)\<rparr>
           in case client_listTools io of
                Inl error \<Rightarrow>
                  (Inl error, log_add (LogConnectFailed (server_name config) error) st2)
              | Inr toolsResponse \<Rightarrow>
                  (let tools = map toMCPTool toolsResponse;
                       st3 = st2\<lparr>availableTools :=
                                  AList.update (server_id config) tools (availableTools st2)\<rparr>
                   in (Inr (), log_add (LogConnected (server_name config) (map name tools)) st3))))"

text \<open>
  What the outside world answers during one \<^verbatim>\<open>disconnect\<close>: whether
  \<^verbatim>\<open>client.close()\<close> and \<^verbatim>\<open>transport.close()\<close> throw. Each is asked only when the
  object is there.
\<close>

record disconnect_io =
  client_close :: "js_error + unit"
  transport_close :: "js_error + unit"

definition close_client :: "string \<Rightarrow> disconnect_io \<Rightarrow> MCPClient \<Rightarrow> (js_error + unit) \<times> MCPClient" where
  "close_client serverId io st =
     (case map_of (clients st) serverId of
        None \<Rightarrow> (Inr (), st)
      | Some client \<Rightarrow>
          (case client_close io of
             Inl error \<Rightarrow> (Inl error, st)
           | Inr _ \<Rightarrow> (Inr (), st\<lparr>clients := AList.delete serverId (clients st)\<rparr>)))"

definition close_transport ::
  "string \<Rightarrow> disconnect_io \<Rightarrow> MCPClient \<Rightarrow> (js_error + unit) \<times> MCPClient" where
  "close_transport serverId io st =
     (case map_of (transports st) serverId of
        None \<Rightarrow> (Inr (), st)
      | Some transport \<Rightarrow>
          (case transport_close io of
             Inl error \<Rightarrow> (Inl error, st)
           | Inr _ \<Rightarrow> (Inr (), st\<lparr>transports := AList.delete serverId (transports st)\<rparr>)))"

definition disconnect ::
  "string \<Rightarrow> disconnect_io \<Rightarrow> MCPClient \<Rightarrow> (js_error + unit) \<times> MCPClient" where
  "disconnect serverId io st =
     (case close_client serverId io st of
        (Inl error, st1) \<Rightarrow> (Inl error, log_add (LogDisconnectFailed serverId error) st1)
      | (Inr _, st1) \<Rightarrow>
          (case close_transport serverId io st1 of
             (Inl error, st2) \<Rightarrow> (Inl error, log_add (LogDisconnectFailed serverId error) st2)
           | (Inr _, st2) \<Rightarrow>
               (Inr (),
                log_add (LogDisconnected serverId)
                  (st2\<lparr>availableTools := AList.delete serverId (availableTools st2)\<rparr>))))"

definition getAllTools :: "MCPClient \<Rightarrow> MCPTool list" where
  "getAllTools st = concat (map snd (availableTools st))"

definition getConnectedServers :: "MCPClient \<Rightarrow> string list" where
  "getConnectedServers st = map fst (clients st)"

text \<open>
  The owner search of \<^verbatim>\<open>executeTool\<close>: the first entry of \<open>availableTools\<close>, in the
  map's order, one of whose tools has the name.
\<close>

definition hasTool :: "string \<Rightarrow> string \<times> MCPTool list \<Rightarrow> bool" where
  "hasTool toolName entry = (case entry of (serverId, tools) \<Rightarrow> list_ex (\<lambda>t. name t = toolName) tools)"

definition findTargetServer :: "string \<Rightarrow> MCPClient \<Rightarrow> string option" where
  "findTargetServer toolName st = map_option fst (find (hasTool toolName) (availableTools st))"

text \<open>
  \<^verbatim>\<open>executeTool\<close> also returns the provider calls it made: the client called, the tool
  name and the arguments. \<open>callTool\<close> is what the provider answers to such a call.
  The test \<^verbatim>\<open>!targetServerId\<close> holds for \<^verbatim>\<open>undefined\<close> and for the empty string.
\<close>

type_synonym provider_call = "Client \<times> string \<times> (string \<times> string) list"

definition executeTool ::
  "string \<Rightarrow> (string \<times> string) list \<Rightarrow> (provider_call \<Rightarrow> js_error + tool_result) \<Rightarrow> MCPClient
     \<Rightarrow> (js_error + tool_result) \<times> provider_call list \<times> MCPClient" where
  "executeTool toolName arguments callTool st =
     (let st0 = log_add (LogExecuting toolName arguments) st;
          notFound = (Inl (Error (''Tool '' @ toolName @ '' not found in any connected server'')),
                      [], st0)
      in case findTargetServer toolName st0 of
           None \<Rightarrow> notFound
         | Some targetServerId \<Rightarrow>
             if targetServerId = [] then notFound
             else
               (case map_of (clients st0) targetServerId of
                  None \<Rightarrow>
                    (Inl (Error (''Client for server '' @ targetServerId @ '' not found'')), [], st0)
                | Some client \<Rightarrow>
                    (case callTool (client, toolName, arguments) of
                       Inl error \<Rightarrow>
                         (Inl error, [(client, toolName, arguments)],
                          log_add (LogExecuteFailed toolName error) st0)
                     | Inr result \<Rightarrow>
                         (Inr result, [(client, toolName, arguments)],
                          log_add (LogExecuted toolName) st0))))"

section \<open>Background translation (the bot's \<^verbatim>\<open>processTranslationInBackground\<close>)\<close>

subsection \<open>String helpers\<close>

text \<open>\<^verbatim>\<open>s.startsWith(p)\<close>, \<^verbatim>\<open>s.endsWith(p)\<close> and \<^verbatim>\<open>s.includes(p)\<close>.\<close>

definition startsWith :: "string \<Rightarrow> string \<Rightarrow> bool" where
  "startsWith s p = (take (length p) s = p)"

definition endsWith :: "string \<Rightarrow> string \<Rightarrow> bool" where
  "endsWith s p = (length p \<le> length s \<and> drop (length s - length p) s = p)"

fun includes_str :: "string \<Rightarrow> string \<Rightarrow> bool" where
  "includes_str [] p = (p = [])"
| "includes_str (c # cs) p = (startsWith (c # cs) p \<or> includes_str cs p)"

text \<open>\<^verbatim>\<open>s.split('/').pop()\<close>: what follows the last slash, the whole of \<open>s\<close> without one.\<close>

definition lastSegment :: "string \<Rightarrow> string" where
  "lastSegment s = rev (takeWhile (\<lambda>c. c \<noteq> CHR ''/'') (rev s))"

text \<open>\<^verbatim>\<open>s || d\<close> on strings: the empty string is falsy.\<close>

definition or_else :: "string \<Rightarrow> string \<Rightarrow> string" where
  "or_else s d = (if s = [] then d else s)"

text \<open>
  \<^verbatim>\<open>path.join(dir, entry)\<close> for a directory and an entry name; the normalisation of
  the directory part is left out.
\<close>

definition join :: "string \<Rightarrow> string \<Rightarrow> string" where
  "join dir entry = dir @ ''/'' @ entry"

definition isDigit :: "char \<Rightarrow> bool" where
  "isDigit c = (c \<in> set ''0123456789'')"

text \<open>
  \<^verbatim>\<open>s.replace(/^\d+_/, '')\<close>: the pattern matches at the start of \<open>s\<close> when \<open>s\<close>
  begins with one or more digits and an underscore follows the last of them.
\<close>

definition stripDigitsPrefix :: "string \<Rightarrow> string" where
  "stripDigitsPrefix s =
     (let digits = takeWhile isDigit s; rest = dropWhile isDigit s
      in if digits \<noteq> [] \<and> startsWith rest ''_'' then drop 1 rest else s)"

subsection \<open>Effects\<close>

text \<open>
  The messages the supervisor sends, by kind and by the values the text carries:
  the retry announcement (attempt, maximum), the completion message (original file
  name, size), the completion message after a timeout, the failed-attempt message
  (attempt, delay in seconds) and the final failure message (maximum, error text).
\<close>

datatype notice =
    Retrying nat nat
  | TranslationCompleted string string
  | CompletedDespiteTimeout
  | AttemptFailed nat nat
  | TranslationFailed nat string

text \<open>
  The calls the supervisor makes to the outside, in the order it makes them:
  Telegram calls carry the chat id, \<open>Sleep\<close> the milliseconds of a \<^verbatim>\<open>setTimeout\<close>.
\<close>

datatype effect =
    SendMessage int notice
  | SendChatAction int string
  | SendDocument int string
  | Sleep nat
  | ExecuteTool string "(string \<times> string) list"
  | Stat string
  | ReadDir string

text \<open>
  An asynchronous computation: what it returns or throws, and the calls it made. A
  call is listed whether it returned or threw.
\<close>

type_synonym 'a io = "(js_error + 'a) \<times> effect list"

definition io_return :: "'a \<Rightarrow> 'a io" where
  "io_return x = (Inr x, [])"

definition io_throw :: "js_error \<Rightarrow> 'a io" where
  "io_throw e = (Inl e, [])"

definition io_call :: "effect \<Rightarrow> js_error + 'a \<Rightarrow> 'a io" where
  "io_call ev answer = (answer, [ev])"

definition io_bind :: "'a io \<Rightarrow> ('a \<Rightarrow> 'b io) \<Rightarrow> 'b io" where
  "io_bind m f =
     (case m of
        (Inl e, tr) \<Rightarrow> (Inl e, tr)
      | (Inr x, tr) \<Rightarrow> (case f x of (r, tr') \<Rightarrow> (r, tr @ tr')))"

subsection \<open>The environment\<close>

text \<open>
  The JSON text a tool returns is read through \<^verbatim>\<open>JSON.parse\<close>; of the parsed value
  the bot reads three properties, taken to be strings when present. \<open>None\<close> for
  the whole value: the text does not parse.
\<close>

record translation_data =
  translatedFile :: "string option"
  originalFile :: "string option"
  fileSizeReadable :: "string option"

record runtime =
  cwd :: string
  toLowerCase :: "string \<Rightarrow> string"
  JSON_parse :: "string \<Rightarrow> translation_data option"

text \<open>
  What the outside world answers during one attempt, one field for each place of
  the loop body that calls out: the state of the MCP client and the provider's answer
  at the time of the tool call, the file system's answers, and whether each Telegram
  call throws.
\<close>

record attempt_io =
  send_retrying :: "js_error + unit"
  send_chat_action :: "js_error + unit"
  mcp_client :: MCPClient
  call_tool :: "provider_call \<Rightarrow> js_error + tool_result"
  exists_sync :: "string \<Rightarrow> bool"
  fs_stat :: "js_error + unit"
  send_document :: "js_error + unit"
  send_completed :: "js_error + unit"
  fs_readdir :: "js_error + string list"
  send_found_document :: "js_error + unit"
  send_found_completed :: "js_error + unit"
  send_attempt_failed :: "js_error + unit"

record translation_job =
  job_userId :: string
  chatId :: int
  filePath :: string
  query :: string
  instructions :: string

definition MAX_RETRIES :: nat where
  "MAX_RETRIES = 3"

subsection \<open>The body of an attempt\<close>

definition detectTargetLang :: "runtime \<Rightarrow> string \<Rightarrow> string" where
  "detectTargetLang rt instr =
     (let lowerInstructions = toLowerCase rt instr
      in if includes_str lowerInstructions ''to spanish''
            \<or> includes_str lowerInstructions (''a espa'' @ [CHR 0xC3, CHR 0xB1] @ ''ol'') then ''es''
         else if includes_str lowerInstructions ''to english''
            \<or> includes_str lowerInstructions (''a ingl'' @ [CHR 0xC3, CHR 0xA9] @ ''s'') then ''en''
         else if includes_str lowerInstructions ''to french''
            \<or> includes_str lowerInstructions (''a franc'' @ [CHR 0xC3, CHR 0xA9] @ ''s'') then ''fr''
         else ''es'')"

text \<open>
  The three variables the parse loop updates: \<open>translatedFilePath\<close> (\<open>None\<close> is
  \<^verbatim>\<open>null\<close>), \<open>originalFileName\<close> and \<open>fileSize\<close>. An item that is not text, does not
  parse, or has no truthy \<^verbatim>\<open>translatedFile\<close> leaves them as they are.
\<close>

definition readItem ::
  "runtime \<Rightarrow> string option \<times> string \<times> string \<Rightarrow> content_item \<Rightarrow> string option \<times> string \<times> string" where
  "readItem rt vars item =
     (case vars of
        (translatedFilePath, originalFileName, fileSize) \<Rightarrow>
          if item_type item = ''text'' then
            (case JSON_parse rt (item_text item) of
               None \<Rightarrow> vars
             | Some data \<Rightarrow>
                 (case translatedFile data of
                    None \<Rightarrow> vars
                  | Some path \<Rightarrow>
                      if path = [] then vars
                      else (Some path,
                            or_else (case originalFile data of None \<Rightarrow> [] | Some f \<Rightarrow> lastSegment f)
                              originalFileName,
                            or_else (case fileSizeReadable data of None \<Rightarrow> [] | Some z \<Rightarrow> z)
                              fileSize)))
          else vars)"

definition parseResult ::
  "runtime \<Rightarrow> tool_result \<Rightarrow> string \<Rightarrow> string option \<times> string \<times> string" where
  "parseResult rt result path =
     (let vars = (None, or_else (lastSegment path) ''document'', ''N/A'')
      in case result of
           NotAnObject \<Rightarrow> vars
         | ResultObject items \<Rightarrow> foldl (readItem rt) vars items)"

definition translateArguments :: "runtime \<Rightarrow> translation_job \<Rightarrow> (string \<times> string) list" where
  "translateArguments rt job =
     [(''filePath'', filePath job), (''sourceLang'', ''en''),
      (''targetLang'', detectTargetLang rt (instructions job))]"

definition notFoundError :: "string option \<Rightarrow> js_error" where
  "notFoundError translatedFilePath =
     Error (''Archivo traducido no encontrado: '' @
            (case translatedFilePath of None \<Rightarrow> ''null'' | Some path \<Rightarrow> path))"

definition sendTranslated :: "translation_job \<Rightarrow> attempt_io \<Rightarrow> string \<Rightarrow> string \<Rightarrow> string \<Rightarrow> unit io" where
  "sendTranslated job io path originalFileName fileSize =
     io_bind (io_call (Stat path) (fs_stat io)) (\<lambda>_.
     io_bind (io_call (SendDocument (chatId job) path) (send_document io)) (\<lambda>_.
     io_call (SendMessage (chatId job) (TranslationCompleted originalFileName fileSize))
       (send_completed io)))"

definition tryBlock :: "runtime \<Rightarrow> translation_job \<Rightarrow> nat \<Rightarrow> attempt_io \<Rightarrow> unit io" where
  "tryBlock rt job attempt io =
     io_bind
       (if attempt > 1 then
          io_bind (io_call (SendMessage (chatId job) (Retrying attempt MAX_RETRIES)) (send_retrying io))
            (\<lambda>_. io_call (Sleep 5000) (Inr ()))
        else io_return ()) (\<lambda>_.
     io_bind (io_call (SendChatAction (chatId job) ''upload_document'') (send_chat_action io)) (\<lambda>_.
     io_bind
       (io_call (ExecuteTool ''translate_pdf'' (translateArguments rt job))
          (fst (executeTool ''translate_pdf'' (translateArguments rt job) (call_tool io)
                  (mcp_client io)))) (\<lambda>result.
     case parseResult rt result (filePath job) of
       (translatedFilePath, originalFileName, fileSize) \<Rightarrow>
         (case translatedFilePath of
            None \<Rightarrow> io_throw (notFoundError translatedFilePath)
          | Some path \<Rightarrow>
              if path \<noteq> [] \<and> exists_sync io path
              then sendTranslated job io path originalFileName fileSize
              else io_throw (notFoundError translatedFilePath)))))"

subsection \<open>The catch block\<close>

definition isTimeoutError :: "js_error \<Rightarrow> bool" where
  "isTimeoutError error = (includes_str (message error) ''timeout'' \<or> code error = NumCode (- 32001))"

definition findTranslatedFile :: "string list \<Rightarrow> string \<Rightarrow> string option" where
  "findTranslatedFile files path =
     (let fileName = or_else (lastSegment path) []
      in find (\<lambda>f. startsWith f ''translated_'' \<and> endsWith f (stripDigitsPrefix fileName)) files)"

datatype catch_outcome = ReturnNow | FallThrough

definition timeoutCheck :: "runtime \<Rightarrow> translation_job \<Rightarrow> attempt_io \<Rightarrow> catch_outcome io" where
  "timeoutCheck rt job io =
     io_bind (io_call (Sleep 10000) (Inr ())) (\<lambda>_.
     let tempDir = join (cwd rt) ''temp'' in
     io_bind (io_call (ReadDir tempDir) (fs_readdir io)) (\<lambda>files.
     case findTranslatedFile files (filePath job) of
       Some found \<Rightarrow>
         io_bind (io_call (SendDocument (chatId job) (join tempDir found))
                    (send_found_document io)) (\<lambda>_.
         io_bind (io_call (SendMessage (chatId job) CompletedDespiteTimeout)
                    (send_found_completed io)) (\<lambda>_.
         io_return ReturnNow))
     | None \<Rightarrow> io_return FallThrough))"

definition backoff :: "translation_job \<Rightarrow> nat \<Rightarrow> attempt_io \<Rightarrow> catch_outcome io" where
  "backoff job attempt io =
     (if attempt < MAX_RETRIES then
        (let delaySeconds = 2 ^ attempt * 5 in
         io_bind (io_call (SendMessage (chatId job) (AttemptFailed attempt delaySeconds))
                    (send_attempt_failed io)) (\<lambda>_.
         io_bind (io_call (Sleep (delaySeconds * 1000)) (Inr ())) (\<lambda>_.
         io_return FallThrough)))
      else io_return FallThrough)"

definition catchBlock ::
  "runtime \<Rightarrow> translation_job \<Rightarrow> nat \<Rightarrow> attempt_io \<Rightarrow> js_error \<Rightarrow> catch_outcome io" where
  "catchBlock rt job attempt io error =
     io_bind (if isTimeoutError error then timeoutCheck rt job io else io_return FallThrough)
       (\<lambda>checked. case checked of
                    ReturnNow \<Rightarrow> io_return ReturnNow
                  | FallThrough \<Rightarrow> backoff job attempt io)"

subsection \<open>The retry loop\<close>

text \<open>
  The loop state is \<open>attempt\<close> and \<open>lastError\<close>; the body starts by counting
  the attempt, so it runs as attempt \<open>Suc attempt\<close>, and \<open>world n\<close> is what the
  outside answers during attempt \<open>n\<close>. The loop ends by the function returning from inside
  it, by an error escaping the catch block, or by the attempts running out.
\<close>

datatype loop_outcome = Returned | Exhausted "js_error option"

function retryLoop ::
  "runtime \<Rightarrow> translation_job \<Rightarrow> (nat \<Rightarrow> attempt_io) \<Rightarrow> nat \<Rightarrow> js_error option \<Rightarrow> loop_outcome io" where
  "retryLoop rt job world attempt lastError =
     (if attempt < MAX_RETRIES then
        (case tryBlock rt job (Suc attempt) (world (Suc attempt)) of
           (Inr _, tr) \<Rightarrow> (Inr Returned, tr)
         | (Inl error, tr) \<Rightarrow>
             (case catchBlock rt job (Suc attempt) (world (Suc attempt)) error of
                (Inl escaped, tr2) \<Rightarrow> (Inl escaped, tr @ tr2)
              | (Inr ReturnNow, tr2) \<Rightarrow> (Inr Returned, tr @ tr2)
              | (Inr FallThrough, tr2) \<Rightarrow>
                  (case retryLoop rt job world (Suc attempt) (Some error) of
                     (r, tr3) \<Rightarrow> (r, tr @ tr2 @ tr3))))
      else (Inr (Exhausted lastError), []))"
  by pat_completeness auto
termination
  by (relation "measure (\<lambda>(rt, job, world, attempt, lastError). MAX_RETRIES - attempt)") auto

declare retryLoop.simps [simp del]

definition failureText :: "js_error option \<Rightarrow> string" where
  "failureText lastError =
     or_else (case lastError of None \<Rightarrow> [] | Some e \<Rightarrow> message e) ''Error desconocido''"

definition processTranslationInBackground ::
  "runtime \<Rightarrow> translation_job \<Rightarrow> (nat \<Rightarrow> attempt_io) \<Rightarrow> js_error + unit \<Rightarrow> unit io" where
  "processTranslationInBackground rt job world send_failed =
     io_bind (retryLoop rt job world 0 None)
       (\<lambda>ended. case ended of
                  Returned \<Rightarrow> io_return ()
                | Exhausted lastError \<Rightarrow>
                    io_call (SendMessage (chatId job)
                               (TranslationFailed MAX_RETRIES (failureText lastError)))
                      send_failed)"

text \<open>
  The document handler stores an upload under the temp directory, as the user id, an
  underscore and the document's file name.
\<close>

definition localFilePath :: "runtime \<Rightarrow> string \<Rightarrow> string \<Rightarrow> string" where
  "localFilePath rt uid file_name = join (join (cwd rt) ''temp'') (uid @ ''_'' @ file_name)"

section \<open>Sample inputs\<close>

text \<open>Concrete values at which the theorems below are instantiated and evaluated.\<close>

definition example_message :: "int \<Rightarrow> ConversationMessage" where
  "example_message t = \<lparr>role = User, content = ''hello'', timestamp = t\<rparr>"

definition example_session :: Session where
  "example_session =
     \<lparr>userId = ''u'', conversationHistory = [example_message 0], activeServers = [''pdf''],
      createdAt = 0, lastActivity = 0\<rparr>"

definition example_store :: SessionManager where
  "example_store = \<lparr>sessions = [''u'' \<mapsto> example_session]\<rparr>"

text \<open>A clock that shows \<open>t\<close> and advances by one millisecond from reading to reading.\<close>

definition ticking :: "int \<Rightarrow> clock" where
  "ticking t = (\<lambda>k. t + int k)"

definition example_calls :: "(clock \<times> ConversationMessage) list" where
  "example_calls = map (\<lambda>i. (ticking (int i), example_message (int i))) [0..<21]"

definition example_tool :: SDKTool where
  "example_tool =
     \<lparr>sdk_name = ''translate_pdf'', sdk_description = None,
      sdk_inputSchema = \<lparr>schema_type = ''object'', properties = None, required = None\<rparr>\<rparr>"

definition example_config :: MCPServerConfig where
  "example_config =
     \<lparr>server_id = ''pdf'', server_name = ''PDF tools'', command = ''node'',
      args = [''server.js''], env = None, autoConnect = None\<rparr>"

definition example_connect_io :: connect_io where
  "example_connect_io =
     \<lparr>new_client = 1, new_transport = 1, client_connect = Inr (),
      client_listTools = Inr [example_tool]\<rparr>"

text \<open>The client after one successful \<^verbatim>\<open>connect\<close> of the sample server.\<close>

definition example_connected :: MCPClient where
  "example_connected = snd (connect example_config example_connect_io newMCPClient)"



definition example_runtime :: runtime where
  "example_runtime = \<lparr>cwd = ''/app'', toLowerCase = (\<lambda>s. s), JSON_parse = (\<lambda>text. None)\<rparr>"

definition example_job :: translation_job where
  "example_job =
     \<lparr>job_userId = ''42'', chatId = 7, filePath = ''/app/temp/42_doc.pdf'',
      query = ''Translate this document: /app/temp/42_doc.pdf'',
      instructions = ''Translate to Spanish''\<rparr>"

text \<open>
  An attempt during which no server is connected, no file exists, the temp directory
  is empty and every Telegram call returns.
\<close>

definition example_io :: attempt_io where
  "example_io =
     \<lparr>send_retrying = Inr (), send_chat_action = Inr (), mcp_client = newMCPClient,
      call_tool = (\<lambda>call. Inr NotAnObject), exists_sync = (\<lambda>path. False), fs_stat = Inr (),
      send_document = Inr (), send_completed = Inr (), fs_readdir = Inr [],
      send_found_document = Inr (), send_found_completed = Inr (),
      send_attempt_failed = Inr ()\<rparr>"

text \<open>
  An attempt during which the sample server is connected, its answer times out in the
  SDK, and the temp directory holds the upload and a translated file.
\<close>

definition example_timeout_io :: attempt_io where
  "example_timeout_io =
     example_io\<lparr>mcp_client := example_connected,
       call_tool := (\<lambda>call. Inl \<lparr>message = ''MCP error -32001: Request timed out'',
                                    code = NumCode (- 32001)\<rparr>),
       fs_readdir := Inr [''42_doc.pdf'', ''translated_42_doc.pdf'']\<rparr>"

text \<open>
  A runtime whose parser reads, from any text, a result naming a translated file; and
  an attempt during which the sample server answers with a text item, every file
  exists, and Telegram accepts everything but the completion message.
\<close>

definition example_parsing_runtime :: runtime where
  "example_parsing_runtime =
     example_runtime\<lparr>JSON_parse := (\<lambda>text.
        Some \<lparr>translatedFile = Some ''/app/temp/translated_42_doc.pdf'',
              originalFile = Some ''/app/temp/42_doc.pdf'', fileSizeReadable = None\<rparr>)\<rparr>"

definition example_rate_limited_io :: attempt_io where
  "example_rate_limited_io =
     example_io\<lparr>mcp_client := example_connected,
       call_tool := (\<lambda>call. Inr (ResultObject [\<lparr>item_type = ''text'', item_text = ''{}''\<rparr>])),
       exists_sync := (\<lambda>path. True),
       send_completed := Inl (Error ''Too Many Requests'')\<rparr>"

section \<open>Properties of the session manager\<close>

lemma slice_last_append_long:
  "n \<le> length ys \<Longrightarrow> slice_last n (xs @ ys) = slice_last n ys"
  by (simp add: slice_last_def)

lemma slice_last_snoc:
  "slice_last n (slice_last n xs @ [x]) = slice_last n (xs @ [x])"
proof (cases "n = 0")
  case True
  then show ?thesis by (simp add: slice_last_def)
next
  case False
  then show ?thesis
    by (cases "length xs \<le> n") (auto simp: slice_last_def Suc_diff_le)
qed

lemma historyOf_addMessage:
  "historyOf (addMessage clock uid msg sm) uid =
     (let pushed = historyOf sm uid @ [msg]
      in if length pushed > 20 then slice_last 20 pushed else pushed)"
  by (simp add: addMessage_def getSession_def historyOf_def Let_def split: option.splits)

lemma historyOf_addMessage_eq:
  "historyOf (addMessage clock uid msg sm) uid = slice_last 20 (historyOf sm uid @ [msg])"
  by (simp add: historyOf_addMessage Let_def slice_last_def)

lemma historyOf_addMessages:
  "calls \<noteq> [] \<Longrightarrow>
   historyOf (addMessages calls uid sm) uid = slice_last 20 (historyOf sm uid @ map snd calls)"
proof (induction calls rule: rev_induct)
  case Nil
  then show ?case by simp
next
  case (snoc c calls)
  obtain clock msg where c: "c = (clock, msg)" by (cases c)
  have step: "addMessages (calls @ [c]) uid sm = addMessage clock uid msg (addMessages calls uid sm)"
    by (simp add: addMessages_def c)
  show ?case
  proof (cases "calls = []")
    case True
    then show ?thesis
      by (simp add: step historyOf_addMessage_eq c addMessages_def)
  next
    case False
    with snoc.IH have ih: "historyOf (addMessages calls uid sm) uid
        = slice_last 20 (historyOf sm uid @ map snd calls)" by simp
    have "historyOf (addMessages (calls @ [c]) uid sm) uid
        = slice_last 20 (slice_last 20 (historyOf sm uid @ map snd calls) @ [msg])"
      by (simp only: step historyOf_addMessage_eq ih)
    also have "\<dots> = slice_last 20 ((historyOf sm uid @ map snd calls) @ [msg])"
      by (rule slice_last_snoc)
    finally show ?thesis by (simp add: c)
  qed
qed

text \<open>
  C5 (as amended). For a user with a session, \<^verbatim>\<open>clearHistory\<close> empties the history
  and leaves the active servers, the user id and \<open>createdAt\<close> as they were; it reads
  the session through \<^verbatim>\<open>getSession\<close>, which sets \<open>lastActivity\<close> to the time of the
  call (the one clock reading the call takes). The sessions of other users are
  untouched.
\<close>

theorem clearHistory_frame:
  assumes "sessions sm uid = Some s"
  shows "sessions (clearHistory clock uid sm) uid
           = Some (s\<lparr>conversationHistory := [], lastActivity := clock 0\<rparr>)
       \<and> (\<forall>other. other \<noteq> uid \<longrightarrow> sessions (clearHistory clock uid sm) other = sessions sm other)"
  using assms by (simp add: clearHistory_def getSession_def Let_def)

theorem clearHistory_frame_witness:
  "sessions (clearHistory (ticking 5) ''u'' example_store) ''u''
     = Some \<lparr>userId = ''u'', conversationHistory = [], activeServers = [''pdf''],
             createdAt = 0, lastActivity = 5\<rparr>
   \<and> sessions (clearHistory (ticking 5) ''u'' example_store) ''v'' = None"
proof -
  have h: "sessions example_store ''u'' = Some example_session"
    by (simp add: example_store_def)
  show ?thesis
    using clearHistory_frame [OF h, of "ticking 5"]
    by (simp add: example_session_def example_store_def ticking_def)
qed

text \<open>
  C5 as stated fails: the session of \<open>''u''\<close> was last active at 0, and after
  \<^verbatim>\<open>clearHistory\<close> at time 5 its \<open>lastActivity\<close> is 5.
\<close>

theorem clearHistory_bumps_lastActivity:
  "map_option lastActivity (sessions example_store ''u'') = Some 0
   \<and> map_option lastActivity (sessions (clearHistory (ticking 5) ''u'' example_store) ''u'')
       = Some 5"
  by (simp add: clearHistory_def getSession_def Let_def example_store_def example_session_def
      ticking_def)

text \<open>
  C6. After any non-empty run of \<^verbatim>\<open>addMessage\<close> calls for a user, the history is
  the last 20 entries of the earlier history followed by the appended messages, in
  that order. So after more than 20 appends it is exactly the 20 most recently
  appended messages, and while the whole is 20 long or shorter nothing is dropped.
  The run is arbitrary, so this holds after each call of a longer run.
\<close>

theorem addMessage_keeps_last_20:
  fixes calls :: "(clock \<times> ConversationMessage) list"
  defines "appended \<equiv> map snd calls"
  shows "(calls \<noteq> [] \<longrightarrow>
            historyOf (addMessages calls uid sm) uid =
              drop (length (historyOf sm uid @ appended) - 20) (historyOf sm uid @ appended))
       \<and> (length appended > 20 \<longrightarrow>
            historyOf (addMessages calls uid sm) uid = drop (length appended - 20) appended
            \<and> length (historyOf (addMessages calls uid sm) uid) = 20)
       \<and> (calls \<noteq> [] \<and> length (historyOf sm uid @ appended) \<le> 20 \<longrightarrow>
            historyOf (addMessages calls uid sm) uid = historyOf sm uid @ appended)"
proof (intro conjI impI)
  assume ne: "calls \<noteq> []"
  then show "historyOf (addMessages calls uid sm) uid =
      drop (length (historyOf sm uid @ appended) - 20) (historyOf sm uid @ appended)"
    using historyOf_addMessages [OF ne, of uid sm] by (simp add: slice_last_def appended_def)
next
  assume long: "length appended > 20"
  then have ne: "calls \<noteq> []" by (auto simp: appended_def)
  have "20 \<le> length appended" using long by simp
  then have "slice_last 20 (historyOf sm uid @ appended) = slice_last 20 appended"
    by (rule slice_last_append_long)
  then show kept: "historyOf (addMessages calls uid sm) uid = drop (length appended - 20) appended"
    using historyOf_addMessages [OF ne, of uid sm] by (simp add: slice_last_def appended_def)
  show "length (historyOf (addMessages calls uid sm) uid) = 20"
    using long by (simp add: kept)
next
  assume "calls \<noteq> [] \<and> length (historyOf sm uid @ appended) \<le> 20"
  then show "historyOf (addMessages calls uid sm) uid = historyOf sm uid @ appended"
    using historyOf_addMessages [of calls uid sm] by (simp add: slice_last_def appended_def)
qed

theorem addMessage_keeps_last_20_witness:
  "historyOf (addMessages example_calls ''u'' example_store) ''u''
     = map (\<lambda>i. example_message (int i)) [1..<21]
   \<and> historyOf (addMessages (take 3 example_calls) ''u'' example_store) ''u''
     = example_message 0 # map (\<lambda>i. example_message (int i)) [0..<3]"
proof -
  have len: "length (map snd example_calls) = 21"
    by (simp add: example_calls_def)
  have all: "map snd example_calls = map (\<lambda>i. example_message (int i)) [0..<21]"
    by (simp add: example_calls_def comp_def)
  have "drop 1 (map (\<lambda>i. example_message (int i)) [0..<21])
          = map (\<lambda>i. example_message (int i)) [1..<21]"
    by (simp add: drop_map)
  then have long: "historyOf (addMessages example_calls ''u'' example_store) ''u''
      = map (\<lambda>i. example_message (int i)) [1..<21]"
    using addMessage_keeps_last_20 [of example_calls "''u''" example_store] len
    by (simp add: all)
  have h0: "historyOf example_store ''u'' = [example_message 0]"
    by (simp add: historyOf_def example_store_def example_session_def)
  have three: "map snd (take 3 example_calls) = map (\<lambda>i. example_message (int i)) [0..<3]"
    by (simp add: example_calls_def take_map comp_def)
  have ne: "take 3 example_calls \<noteq> []"
    by (simp add: example_calls_def take_map upt_rec)
  have short: "historyOf (addMessages (take 3 example_calls) ''u'' example_store) ''u''
      = example_message 0 # map (\<lambda>i. example_message (int i)) [0..<3]"
    using addMessage_keeps_last_20 [of "take 3 example_calls" "''u''" example_store] ne
    by (simp add: h0 three)
  from long short show ?thesis by simp
qed

text \<open>
  C7. The sweep at time \<open>now\<close> removes a session exactly when
  \<open>now - lastActivity\<close> is more than 30 minutes (1800000 ms): such a session is gone
  afterwards, and a session within the window, the threshold itself included, is
  still there and unchanged. A user without a session has none afterwards.
\<close>

theorem cleanup_removes_exactly_expired:
  "(sessions sm uid = Some s \<and> now - lastActivity s > 1800000 \<longrightarrow>
      sessions (cleanupInactiveSessions now sm) uid = None)
   \<and> (sessions sm uid = Some s \<and> now - lastActivity s \<le> 1800000 \<longrightarrow>
      sessions (cleanupInactiveSessions now sm) uid = Some s)
   \<and> (sessions sm uid = None \<longrightarrow> sessions (cleanupInactiveSessions now sm) uid = None)"
  by (simp add: cleanupInactiveSessions_def SESSION_TIMEOUT_def)

theorem cleanup_removes_exactly_expired_witness:
  "sessions (cleanupInactiveSessions 1800001 example_store) ''u'' = None
   \<and> sessions (cleanupInactiveSessions 1800000 example_store) ''u'' = Some example_session
   \<and> sessions (cleanupInactiveSessions 1800000 example_store) ''v'' = None"
proof -
  have h: "sessions example_store ''u'' = Some example_session"
    and n: "sessions example_store ''v'' = None"
    and t: "lastActivity example_session = 0"
    by (simp_all add: example_store_def example_session_def)
  show ?thesis
    using cleanup_removes_exactly_expired [of example_store "''u''" example_session 1800001]
      cleanup_removes_exactly_expired [of example_store "''u''" example_session 1800000]
      cleanup_removes_exactly_expired [of example_store "''v''" example_session 1800000]
    by (simp add: h n t)
qed

text \<open>
  C10 (as amended). Called for a user without a session, each of \<^verbatim>\<open>addMessage\<close>,
  \<^verbatim>\<open>clearHistory\<close>, \<^verbatim>\<open>addActiveServer\<close>, \<^verbatim>\<open>removeActiveServer\<close> and
  \<^verbatim>\<open>getActiveServers\<close> works on a session created on the spot, with empty history
  and no active servers; \<open>createdAt\<close> is the first clock reading of the call and
  \<open>lastActivity\<close> the second. None of them has a failing branch. After any of them,
  for any user, the user has a session whose \<open>lastActivity\<close> is the last clock reading
  the call took: the second when the session was created, the only one otherwise.
\<close>

theorem operations_create_session:
  "(sessions sm uid = None \<longrightarrow>
      sessions (addMessage clock uid msg sm) uid
        = Some \<lparr>userId = uid, conversationHistory = [msg], activeServers = [],
                createdAt = clock 0, lastActivity = clock 1\<rparr>
    \<and> sessions (clearHistory clock uid sm) uid
        = Some \<lparr>userId = uid, conversationHistory = [], activeServers = [],
                createdAt = clock 0, lastActivity = clock 1\<rparr>
    \<and> sessions (addActiveServer clock uid sid sm) uid
        = Some \<lparr>userId = uid, conversationHistory = [], activeServers = [sid],
                createdAt = clock 0, lastActivity = clock 1\<rparr>
    \<and> sessions (removeActiveServer clock uid sid sm) uid
        = Some \<lparr>userId = uid, conversationHistory = [], activeServers = [],
                createdAt = clock 0, lastActivity = clock 1\<rparr>
    \<and> fst (getActiveServers clock uid sm) = []
    \<and> sessions (snd (getActiveServers clock uid sm)) uid
        = Some \<lparr>userId = uid, conversationHistory = [], activeServers = [],
                createdAt = clock 0, lastActivity = clock 1\<rparr>)
   \<and> map_option lastActivity (sessions (addMessage clock uid msg sm) uid)
       = Some (if sessions sm uid = None then clock 1 else clock 0)
   \<and> map_option lastActivity (sessions (clearHistory clock uid sm) uid)
       = Some (if sessions sm uid = None then clock 1 else clock 0)
   \<and> map_option lastActivity (sessions (addActiveServer clock uid sid sm) uid)
       = Some (if sessions sm uid = None then clock 1 else clock 0)
   \<and> map_option lastActivity (sessions (removeActiveServer clock uid sid sm) uid)
       = Some (if sessions sm uid = None then clock 1 else clock 0)
   \<and> map_option lastActivity (sessions (snd (getActiveServers clock uid sm)) uid)
       = Some (if sessions sm uid = None then clock 1 else clock 0)"
  by (simp add: addMessage_def clearHistory_def addActiveServer_def removeActiveServer_def
      getActiveServers_def getSession_def set_add_def set_delete_def Let_def
      split: option.splits)

theorem operations_create_session_witness:
  "sessions (addMessage (ticking 9) ''v'' (example_message 9) example_store) ''v''
     = Some \<lparr>userId = ''v'', conversationHistory = [example_message 9], activeServers = [],
             createdAt = 9, lastActivity = 10\<rparr>
   \<and> sessions (addActiveServer (\<lambda>k. 9) ''v'' ''pdf'' example_store) ''v''
     = Some \<lparr>userId = ''v'', conversationHistory = [], activeServers = [''pdf''],
             createdAt = 9, lastActivity = 9\<rparr>
   \<and> map_option lastActivity
       (sessions (removeActiveServer (ticking 9) ''u'' ''pdf'' example_store) ''u'')
     = Some 9"
proof -
  have n: "sessions example_store ''v'' = None"
    and h: "sessions example_store ''u'' \<noteq> None"
    by (simp_all add: example_store_def)
  show ?thesis
    using operations_create_session
            [of example_store "''v''" "ticking 9" "example_message 9" "''pdf''"]
      operations_create_session
            [of example_store "''v''" "\<lambda>k. 9" "example_message 9" "''pdf''"]
      operations_create_session
            [of example_store "''u''" "ticking 9" "example_message 9" "''pdf''"]
    by (simp add: n h ticking_def)
qed

text \<open>
  C10 as stated fails: with a clock that advances between the two readings, the
  session that \<^verbatim>\<open>addMessage\<close> creates for \<open>''v''\<close> has \<open>createdAt\<close> 9 and
  \<open>lastActivity\<close> 10, so the two timestamps are not set to one and the same time.
\<close>

theorem created_session_timestamps_differ:
  "sessions example_store ''v'' = None
   \<and> map_option createdAt
       (sessions (addMessage (ticking 9) ''v'' (example_message 9) example_store) ''v'') = Some 9
   \<and> map_option lastActivity
       (sessions (addMessage (ticking 9) ''v'' (example_message 9) example_store) ''v'') = Some 10"
  by (simp add: addMessage_def getSession_def Let_def example_store_def ticking_def)

section \<open>Properties of the MCP client\<close>

lemma map_of_delete_same: "map_of (AList.delete k xs) k = None"
  by (simp add: delete_conv')

lemma not_connected_iff:
  "serverId \<notin> set (getConnectedServers st) \<longleftrightarrow> map_of (clients st) serverId = None"
  by (simp add: getConnectedServers_def map_of_eq_None_iff)

lemma disconnect_returns:
  assumes "fst (disconnect serverId io st) = Inr ()"
  shows "availableTools (snd (disconnect serverId io st)) = AList.delete serverId (availableTools st)"
    and "map_of (clients (snd (disconnect serverId io st))) serverId = None"
    and "map_of (transports (snd (disconnect serverId io st))) serverId = None"
  using assms
  by (auto simp: disconnect_def close_client_def close_transport_def log_add_def
      map_of_delete_same split: option.splits sum.splits)

lemma disconnect_throws:
  assumes "fst (disconnect serverId io st) = Inl error"
  shows "availableTools (snd (disconnect serverId io st)) = availableTools st"
    and "logged (snd (disconnect serverId io st)) = logged st @ [LogDisconnectFailed serverId error]"
  using assms
  by (auto simp: disconnect_def close_client_def close_transport_def log_add_def
      split: option.splits sum.splits)

lemma disconnect_throws_iff:
  "fst (disconnect serverId io st) = Inl error \<longleftrightarrow>
     (map_of (clients st) serverId \<noteq> None \<and> client_close io = Inl error)
     \<or> ((map_of (clients st) serverId = None \<or> client_close io = Inr ())
         \<and> map_of (transports st) serverId \<noteq> None \<and> transport_close io = Inl error)"
  by (auto simp: disconnect_def close_client_def close_transport_def log_add_def
      split: option.splits sum.splits)

text \<open>
  C1 (as amended). When \<^verbatim>\<open>disconnect\<close> returns normally, the registry holds no
  tools for the server, and the server is neither among the connected servers nor
  among the transports. When closing the client or the transport throws, the method
  logs the error and throws it again to the caller, and the registry is as it was
  before the call. It throws exactly when the client is held and its \<^verbatim>\<open>close\<close>
  throws, or the client's teardown went through (or there was none to do) and the
  transport is held and its \<^verbatim>\<open>close\<close> throws.
\<close>

theorem disconnect_unregisters_unless_close_throws:
  "(fst (disconnect serverId io st) = Inr () \<longrightarrow>
      map_of (availableTools (snd (disconnect serverId io st))) serverId = None
      \<and> serverId \<notin> set (getConnectedServers (snd (disconnect serverId io st)))
      \<and> map_of (transports (snd (disconnect serverId io st))) serverId = None)
   \<and> (fst (disconnect serverId io st) = Inl error \<longrightarrow>
        availableTools (snd (disconnect serverId io st)) = availableTools st
        \<and> logged (snd (disconnect serverId io st))
            = logged st @ [LogDisconnectFailed serverId error])
   \<and> (fst (disconnect serverId io st) = Inl error \<longleftrightarrow>
        (map_of (clients st) serverId \<noteq> None \<and> client_close io = Inl error)
        \<or> ((map_of (clients st) serverId = None \<or> client_close io = Inr ())
            \<and> map_of (transports st) serverId \<noteq> None \<and> transport_close io = Inl error))"
proof (intro conjI impI)
  assume ok: "fst (disconnect serverId io st) = Inr ()"
  show "map_of (availableTools (snd (disconnect serverId io st))) serverId = None"
    by (simp add: disconnect_returns(1) [OF ok] map_of_delete_same)
  show "serverId \<notin> set (getConnectedServers (snd (disconnect serverId io st)))"
    by (simp add: not_connected_iff disconnect_returns(2) [OF ok])
  show "map_of (transports (snd (disconnect serverId io st))) serverId = None"
    by (rule disconnect_returns(3) [OF ok])
next
  assume bad: "fst (disconnect serverId io st) = Inl error"
  show "availableTools (snd (disconnect serverId io st)) = availableTools st"
    by (rule disconnect_throws(1) [OF bad])
  show "logged (snd (disconnect serverId io st)) = logged st @ [LogDisconnectFailed serverId error]"
    by (rule disconnect_throws(2) [OF bad])
next
  show "fst (disconnect serverId io st) = Inl error \<longleftrightarrow>
        (map_of (clients st) serverId \<noteq> None \<and> client_close io = Inl error)
        \<or> ((map_of (clients st) serverId = None \<or> client_close io = Inr ())
            \<and> map_of (transports st) serverId \<noteq> None \<and> transport_close io = Inl error)"
    by (rule disconnect_throws_iff)
qed

theorem disconnect_unregisters_unless_close_throws_witness:
  "map_of (availableTools (snd (disconnect ''pdf''
       \<lparr>client_close = Inr (), transport_close = Inr ()\<rparr> example_connected))) ''pdf'' = None
   \<and> availableTools (snd (disconnect ''pdf''
       \<lparr>client_close = Inl (Error ''close failed''), transport_close = Inr ()\<rparr> example_connected))
      = availableTools example_connected"
proof -
  have ok: "fst (disconnect ''pdf'' \<lparr>client_close = Inr (), transport_close = Inr ()\<rparr>
                   example_connected) = Inr ()"
    by (simp add: disconnect_def close_client_def close_transport_def example_connected_def
        connect_def example_connect_io_def example_config_def newMCPClient_def log_add_def Let_def)
  have bad: "fst (disconnect ''pdf''
                    \<lparr>client_close = Inl (Error ''close failed''), transport_close = Inr ()\<rparr>
                    example_connected) = Inl (Error ''close failed'')"
    by (simp add: disconnect_def close_client_def close_transport_def example_connected_def
        connect_def example_connect_io_def example_config_def newMCPClient_def log_add_def Let_def)
  show ?thesis
    using disconnect_unregisters_unless_close_throws
            [of "''pdf''" "\<lparr>client_close = Inr (), transport_close = Inr ()\<rparr>" example_connected]
          disconnect_unregisters_unless_close_throws
            [of "''pdf''" "\<lparr>client_close = Inl (Error ''close failed''), transport_close = Inr ()\<rparr>"
                example_connected "Error ''close failed''"]
          ok bad
    by simp
qed

text \<open>
  C1 as stated fails: the sample server is connected with one tool; when
  \<^verbatim>\<open>client.close()\<close> throws, \<^verbatim>\<open>disconnect\<close> throws the same error to its caller
  and the registry still holds the server's tool.
\<close>

theorem disconnect_keeps_tools_when_close_throws:
  "fst (disconnect ''pdf''
          \<lparr>client_close = Inl (Error ''close failed''), transport_close = Inr ()\<rparr>
          example_connected) = Inl (Error ''close failed'')
   \<and> map_of (availableTools (snd (disconnect ''pdf''
          \<lparr>client_close = Inl (Error ''close failed''), transport_close = Inr ()\<rparr>
          example_connected))) ''pdf'' = Some [toMCPTool example_tool]"
  by (simp add: disconnect_def close_client_def close_transport_def example_connected_def
      connect_def example_connect_io_def example_config_def newMCPClient_def log_add_def Let_def)

text \<open>
  C4 (as amended). When \<^verbatim>\<open>connect\<close> throws, the registry is exactly as it was
  before the call: it has gained no entry, an entry the server had from an earlier
  \<^verbatim>\<open>connect\<close> is still there, and the flattened view is the same. When the launch
  threw, the clients, the transports and the connected servers are unchanged as
  well. When the launch went through and the tool listing threw, the new client and
  the new transport have already been stored under the server's id, so the server is
  among the connected servers.
\<close>

theorem connect_failure_leaves_registry:
  assumes "fst (connect config io st) = Inl error"
  shows "availableTools (snd (connect config io st)) = availableTools st
       \<and> getAllTools (snd (connect config io st)) = getAllTools st
       \<and> (client_connect io = Inl error \<longrightarrow>
            clients (snd (connect config io st)) = clients st
            \<and> transports (snd (connect config io st)) = transports st
            \<and> getConnectedServers (snd (connect config io st)) = getConnectedServers st)
       \<and> (client_connect io = Inr () \<longrightarrow>
            client_listTools io = Inl error
            \<and> clients (snd (connect config io st))
                = AList.update (server_id config) (new_client io) (clients st)
            \<and> transports (snd (connect config io st))
                = AList.update (server_id config) (new_transport io) (transports st)
            \<and> map_of (clients (snd (connect config io st))) (server_id config)
                = Some (new_client io)
            \<and> server_id config \<in> set (getConnectedServers (snd (connect config io st))))"
  using assms
  by (auto simp: connect_def log_add_def Let_def getAllTools_def getConnectedServers_def
      dom_update update_conv' split: sum.splits)

theorem connect_failure_leaves_registry_witness:
  "getAllTools (snd (connect example_config
       (example_connect_io\<lparr>client_connect := Inl (Error ''spawn failed'')\<rparr>) newMCPClient)) = []
   \<and> getConnectedServers (snd (connect example_config
       (example_connect_io\<lparr>client_connect := Inl (Error ''spawn failed'')\<rparr>) newMCPClient)) = []
   \<and> getAllTools (snd (connect example_config
       (example_connect_io\<lparr>new_client := 2, new_transport := 2,
                           client_listTools := Inl (Error ''handshake failed'')\<rparr>)
       example_connected)) = [toMCPTool example_tool]
   \<and> clients (snd (connect example_config
       (example_connect_io\<lparr>new_client := 2, new_transport := 2,
                           client_listTools := Inl (Error ''handshake failed'')\<rparr>)
       example_connected)) = [(''pdf'', 2)]
   \<and> transports (snd (connect example_config
       (example_connect_io\<lparr>new_client := 2, new_transport := 2,
                           client_listTools := Inl (Error ''handshake failed'')\<rparr>)
       example_connected)) = [(''pdf'', 2)]"
proof -
  let ?launch = "example_connect_io\<lparr>client_connect := Inl (Error ''spawn failed'')\<rparr>"
  let ?listing = "example_connect_io\<lparr>new_client := 2, new_transport := 2,
                    client_listTools := Inl (Error ''handshake failed'')\<rparr>"
  have launch: "fst (connect example_config ?launch newMCPClient) = Inl (Error ''spawn failed'')"
    by (simp add: connect_def example_connect_io_def Let_def)
  have listing: "fst (connect example_config ?listing example_connected)
      = Inl (Error ''handshake failed'')"
    by (simp add: connect_def example_connect_io_def Let_def)
  have before: "getAllTools example_connected = [toMCPTool example_tool]"
    "clients example_connected = [(''pdf'', 1)]"
    "transports example_connected = [(''pdf'', 1)]"
    by (simp_all add: getAllTools_def example_connected_def connect_def example_connect_io_def
        example_config_def newMCPClient_def log_add_def Let_def)
  have went: "client_connect ?listing = Inr ()" and failed: "client_connect ?launch = Inl (Error ''spawn failed'')"
    by (simp_all add: example_connect_io_def)
  have unchanged: "getAllTools (snd (connect example_config ?launch newMCPClient))
        = getAllTools newMCPClient"
    and held: "getConnectedServers (snd (connect example_config ?launch newMCPClient))
        = getConnectedServers newMCPClient"
    using connect_failure_leaves_registry [OF launch] failed by simp_all
  have kept: "getAllTools (snd (connect example_config ?listing example_connected))
        = getAllTools example_connected"
    and stored: "clients (snd (connect example_config ?listing example_connected))
        = AList.update (server_id example_config) (new_client ?listing) (clients example_connected)"
    and carried: "transports (snd (connect example_config ?listing example_connected))
        = AList.update (server_id example_config) (new_transport ?listing)
            (transports example_connected)"
    using connect_failure_leaves_registry [OF listing] went by simp_all
  show ?thesis
    by (simp add: unchanged held kept stored carried before)
       (simp add: newMCPClient_def getAllTools_def getConnectedServers_def example_config_def
          example_connect_io_def)
qed

text \<open>
  C4 as stated fails: on a new client, a \<^verbatim>\<open>connect\<close> whose tool listing throws
  leaves the server among the connected servers.
\<close>

theorem connect_handshake_failure_keeps_client:
  "fst (connect example_config
          (example_connect_io\<lparr>client_listTools := Inl (Error ''handshake failed'')\<rparr>) newMCPClient)
     = Inl (Error ''handshake failed'')
   \<and> getConnectedServers (snd (connect example_config
          (example_connect_io\<lparr>client_listTools := Inl (Error ''handshake failed'')\<rparr>) newMCPClient))
     = [''pdf'']
   \<and> getConnectedServers newMCPClient = []"
  by (simp add: connect_def example_connect_io_def example_config_def newMCPClient_def
      log_add_def Let_def getConnectedServers_def)





lemma findTargetServer_log [simp]:
  "findTargetServer toolName (log_add e st) = findTargetServer toolName st"
  by (simp add: findTargetServer_def log_add_def)

lemma clients_log_add [simp]: "clients (log_add e st) = clients st"
  by (simp add: log_add_def)

lemma executeTool_found:
  assumes "findTargetServer toolName st = Some serverId" and "serverId \<noteq> []"
    and "map_of (clients st) serverId = Some client"
  shows "fst (executeTool toolName arguments callTool st) = callTool (client, toolName, arguments)"
    and "fst (snd (executeTool toolName arguments callTool st)) = [(client, toolName, arguments)]"
  using assms
  by (cases "callTool (client, toolName, arguments)"; simp add: executeTool_def Let_def)+



text \<open>
  Registration order is the order of the registry's entries: a server that is not in
  the registry goes last when its \<^verbatim>\<open>connect\<close> succeeds.
\<close>

lemma connect_registers_last:
  assumes "fst (connect config io st) = Inr ()"
    and "map_of (availableTools st) (server_id config) = None"
  shows "\<exists>tools. availableTools (snd (connect config io st))
           = availableTools st @ [(server_id config, tools)]"
proof -
  have app: "map_of xs k = None \<Longrightarrow> AList.update k v xs = xs @ [(k, v)]" for xs :: "(string \<times> MCPTool list) list" and k v
    by (induction xs) (auto split: if_splits)
  show ?thesis
    using assms by (auto simp: connect_def log_add_def Let_def app split: sum.splits)
qed






section \<open>Properties of the background translation\<close>

lemma snd_io_bind:
  "snd (io_bind m f) = snd m @ (case fst m of Inl e \<Rightarrow> [] | Inr x \<Rightarrow> snd (f x))"
  by (cases m) (auto simp: io_bind_def split: sum.splits prod.splits)

lemma retryLoop_exhausted:
  "\<not> attempt < MAX_RETRIES \<Longrightarrow>
   retryLoop rt job world attempt lastError = (Inr (Exhausted lastError), [])"
  by (simp add: retryLoop.simps)

lemma retryLoop_again:
  assumes "attempt < MAX_RETRIES" and "n = Suc attempt"
    and "fst (tryBlock rt job n (world n)) = Inl error"
    and "catchBlock rt job n (world n) error = (Inr FallThrough, tr2)"
  shows "retryLoop rt job world attempt lastError =
           (fst (retryLoop rt job world n (Some error)),
            snd (tryBlock rt job n (world n)) @ tr2 @ snd (retryLoop rt job world n (Some error)))"
proof -
  obtain tr where t: "tryBlock rt job (Suc attempt) (world (Suc attempt)) = (Inl error, tr)"
    using assms(2,3) by (cases "tryBlock rt job (Suc attempt) (world (Suc attempt))") auto
  have c: "catchBlock rt job (Suc attempt) (world (Suc attempt)) error = (Inr FallThrough, tr2)"
    using assms(2,4) by simp
  show ?thesis
    unfolding assms(2)
    by (subst retryLoop.simps) (simp add: assms(1) t c split: prod.splits)
qed

lemma catchBlock_other_error:
  "\<not> isTimeoutError error \<Longrightarrow> catchBlock rt job attempt io error = backoff job attempt io"
  by (cases "backoff job attempt io") (simp add: catchBlock_def io_bind_def io_return_def)

lemma backoff_waits:
  assumes "attempt < MAX_RETRIES" and "send_attempt_failed io = Inr ()"
  shows "backoff job attempt io =
           (Inr FallThrough,
            [SendMessage (chatId job) (AttemptFailed attempt (2 ^ attempt * 5)),
             Sleep (2 ^ attempt * 5 * 1000)])"
  using assms by (simp add: backoff_def Let_def io_bind_def io_call_def io_return_def)

lemma backoff_last:
  "\<not> attempt < MAX_RETRIES \<Longrightarrow> backoff job attempt io = (Inr FallThrough, [])"
  by (simp add: backoff_def io_return_def)

lemma timeoutCheck_found:
  assumes "fs_readdir io = Inr files"
    and "findTranslatedFile files (filePath job) = Some found"
    and "send_found_document io = Inr ()" and "send_found_completed io = Inr ()"
  shows "timeoutCheck rt job io =
           (Inr ReturnNow,
            [Sleep 10000, ReadDir (join (cwd rt) ''temp''),
             SendDocument (chatId job) (join (join (cwd rt) ''temp'') found),
             SendMessage (chatId job) CompletedDespiteTimeout])"
  using assms by (simp add: timeoutCheck_def Let_def io_bind_def io_call_def io_return_def)

lemma three_failures_run:
  assumes "fst (tryBlock rt job 1 (world 1)) = Inl e1"
    and "fst (tryBlock rt job 2 (world 2)) = Inl e2"
    and "fst (tryBlock rt job 3 (world 3)) = Inl e3"
    and "\<not> isTimeoutError e1" and "\<not> isTimeoutError e2" and "\<not> isTimeoutError e3"
    and "send_attempt_failed (world 1) = Inr ()"
    and "send_attempt_failed (world 2) = Inr ()"
  shows "processTranslationInBackground rt job world send_failed =
      (send_failed,
       snd (tryBlock rt job 1 (world 1))
       @ [SendMessage (chatId job) (AttemptFailed 1 10), Sleep 10000]
       @ snd (tryBlock rt job 2 (world 2))
       @ [SendMessage (chatId job) (AttemptFailed 2 20), Sleep 20000]
       @ snd (tryBlock rt job 3 (world 3))
       @ [SendMessage (chatId job) (TranslationFailed 3 (failureText (Some e3)))])"
proof -
  let ?t1 = "snd (tryBlock rt job 1 (world 1))"
  let ?t2 = "snd (tryBlock rt job 2 (world 2))"
  let ?t3 = "snd (tryBlock rt job 3 (world 3))"
  have c1: "catchBlock rt job 1 (world 1) e1 =
      (Inr FallThrough, [SendMessage (chatId job) (AttemptFailed 1 10), Sleep 10000])"
    using assms(4,7) backoff_waits [of 1 "world 1" job]
    by (simp add: catchBlock_other_error MAX_RETRIES_def)
  have c2: "catchBlock rt job 2 (world 2) e2 =
      (Inr FallThrough, [SendMessage (chatId job) (AttemptFailed 2 20), Sleep 20000])"
    using assms(5,8) backoff_waits [of 2 "world 2" job]
    by (simp add: catchBlock_other_error MAX_RETRIES_def)
  have c3: "catchBlock rt job 3 (world 3) e3 = (Inr FallThrough, [])"
    using assms(6) backoff_last [of 3 job "world 3"]
    by (simp add: catchBlock_other_error MAX_RETRIES_def)
  have l3: "retryLoop rt job world 3 (Some e3) = (Inr (Exhausted (Some e3)), [])"
    by (rule retryLoop_exhausted) (simp add: MAX_RETRIES_def)
  have l2: "retryLoop rt job world 2 (Some e2) = (Inr (Exhausted (Some e3)), ?t3)"
  proof -
    have "retryLoop rt job world 2 (Some e2) =
        (fst (retryLoop rt job world 3 (Some e3)),
         ?t3 @ [] @ snd (retryLoop rt job world 3 (Some e3)))"
    proof (rule retryLoop_again)
      show "2 < MAX_RETRIES" by (simp add: MAX_RETRIES_def)
      show "(3::nat) = Suc 2" by simp
      show "fst (tryBlock rt job 3 (world 3)) = Inl e3" by (rule assms(3))
      show "catchBlock rt job 3 (world 3) e3 = (Inr FallThrough, [])" by (rule c3)
    qed
    then show ?thesis by (simp only: l3 fst_conv snd_conv append_Nil append_Nil2)
  qed
  have l1: "retryLoop rt job world 1 (Some e1) =
      (Inr (Exhausted (Some e3)),
       ?t2 @ [SendMessage (chatId job) (AttemptFailed 2 20), Sleep 20000] @ ?t3)"
  proof -
    have "retryLoop rt job world 1 (Some e1) =
        (fst (retryLoop rt job world 2 (Some e2)),
         ?t2 @ [SendMessage (chatId job) (AttemptFailed 2 20), Sleep 20000]
         @ snd (retryLoop rt job world 2 (Some e2)))"
    proof (rule retryLoop_again)
      show "1 < MAX_RETRIES" by (simp add: MAX_RETRIES_def)
      show "(2::nat) = Suc 1" by simp
      show "fst (tryBlock rt job 2 (world 2)) = Inl e2" by (rule assms(2))
      show "catchBlock rt job 2 (world 2) e2 =
          (Inr FallThrough, [SendMessage (chatId job) (AttemptFailed 2 20), Sleep 20000])"
        by (rule c2)
    qed
    then show ?thesis by (simp only: l2 fst_conv snd_conv)
  qed
  have l0: "retryLoop rt job world 0 None =
      (Inr (Exhausted (Some e3)),
       ?t1 @ [SendMessage (chatId job) (AttemptFailed 1 10), Sleep 10000]
       @ ?t2 @ [SendMessage (chatId job) (AttemptFailed 2 20), Sleep 20000] @ ?t3)"
  proof -
    have "retryLoop rt job world 0 None =
        (fst (retryLoop rt job world 1 (Some e1)),
         ?t1 @ [SendMessage (chatId job) (AttemptFailed 1 10), Sleep 10000]
         @ snd (retryLoop rt job world 1 (Some e1)))"
    proof (rule retryLoop_again)
      show "0 < MAX_RETRIES" by (simp add: MAX_RETRIES_def)
      show "(1::nat) = Suc 0" by simp
      show "fst (tryBlock rt job 1 (world 1)) = Inl e1" by (rule assms(1))
      show "catchBlock rt job 1 (world 1) e1 =
          (Inr FallThrough, [SendMessage (chatId job) (AttemptFailed 1 10), Sleep 10000])"
        by (rule c1)
    qed
    then show ?thesis by (simp only: l1 fst_conv snd_conv)
  qed
  show ?thesis
    by (simp add: processTranslationInBackground_def l0 io_bind_def io_call_def MAX_RETRIES_def)
qed

lemma example_delivering_attempt:
  "tryBlock example_parsing_runtime example_job n example_rate_limited_io =
     (Inl (Error ''Too Many Requests''),
      (if n > 1 then [SendMessage 7 (Retrying n 3), Sleep 5000] else [])
      @ [SendChatAction 7 ''upload_document'',
         ExecuteTool ''translate_pdf''
           [(''filePath'', ''/app/temp/42_doc.pdf''), (''sourceLang'', ''en''),
            (''targetLang'', ''es'')],
         Stat ''/app/temp/translated_42_doc.pdf'',
         SendDocument 7 ''/app/temp/translated_42_doc.pdf'',
         SendMessage 7 (TranslationCompleted ''42_doc.pdf'' ''N/A'')])"
proof -
  have tools: "availableTools example_connected = [(''pdf'', [toMCPTool example_tool])]"
    and cl: "clients example_connected = [(''pdf'', 1)]"
    by (simp_all add: example_connected_def connect_def example_connect_io_def
        example_config_def newMCPClient_def log_add_def Let_def)
  have owner: "findTargetServer ''translate_pdf'' example_connected = Some ''pdf''"
    by (simp add: findTargetServer_def tools hasTool_def toMCPTool_def example_tool_def)
  have lang: "detectTargetLang example_parsing_runtime (instructions example_job) = ''es''"
    by (simp add: detectTargetLang_def example_parsing_runtime_def example_runtime_def
        example_job_def startsWith_def)
  have answered: "fst (executeTool ''translate_pdf'' arguments
                (\<lambda>call. Inr (ResultObject [\<lparr>item_type = ''text'', item_text = ''{}''\<rparr>]))
                example_connected)
      = Inr (ResultObject [\<lparr>item_type = ''text'', item_text = ''{}''\<rparr>])"
    for arguments
    using executeTool_found(1) [of "''translate_pdf''" example_connected "''pdf''" 1 arguments
        "\<lambda>call. Inr (ResultObject [\<lparr>item_type = ''text'', item_text = ''{}''\<rparr>])"] owner
    by (simp add: cl)
  have parsed: "parseResult example_parsing_runtime
                  (ResultObject [\<lparr>item_type = ''text'', item_text = ''{}''\<rparr>])
                  ''/app/temp/42_doc.pdf''
      = (Some ''/app/temp/translated_42_doc.pdf'', ''42_doc.pdf'', ''N/A'')"
    by (simp add: parseResult_def readItem_def example_parsing_runtime_def example_runtime_def
        or_else_def lastSegment_def)
  have chat: "chatId example_job = 7" and path: "filePath example_job = ''/app/temp/42_doc.pdf''"
    by (simp_all add: example_job_def)
  show ?thesis
    by (simp add: tryBlock_def sendTranslated_def io_bind_def io_call_def io_return_def
        example_rate_limited_io_def example_io_def answered translateArguments_def lang parsed
        chat path MAX_RETRIES_def Error_def)
qed

text \<open>
  C2, at a failing input. In each of the three attempts the tool returns, the
  translated file exists and Telegram accepts the document, and then Telegram refuses
  the completion message with an error that is not a timeout. The refusal is thrown
  inside the \<^verbatim>\<open>try\<close> block, so the attempt counts as failed: the loop announces
  the failure, waits, and runs the whole attempt again. All three attempts fail with
  the refusal, the final failure message carries its text, and the document has been
  sent three times.
\<close>

theorem completion_refused_resends_document:
  "fst (tryBlock example_parsing_runtime example_job 1 example_rate_limited_io)
     = Inl (Error ''Too Many Requests'')
   \<and> fst (tryBlock example_parsing_runtime example_job 2 example_rate_limited_io)
     = Inl (Error ''Too Many Requests'')
   \<and> fst (tryBlock example_parsing_runtime example_job 3 example_rate_limited_io)
     = Inl (Error ''Too Many Requests'')
   \<and> isTimeoutError (Error ''Too Many Requests'') = False
   \<and> send_document example_rate_limited_io = Inr ()
   \<and> processTranslationInBackground example_parsing_runtime example_job
         (\<lambda>n. example_rate_limited_io) (Inr ())
     = (Inr (),
        [SendChatAction 7 ''upload_document'',
         ExecuteTool ''translate_pdf''
           [(''filePath'', ''/app/temp/42_doc.pdf''), (''sourceLang'', ''en''),
            (''targetLang'', ''es'')],
         Stat ''/app/temp/translated_42_doc.pdf'',
         SendDocument 7 ''/app/temp/translated_42_doc.pdf'',
         SendMessage 7 (TranslationCompleted ''42_doc.pdf'' ''N/A''),
         SendMessage 7 (AttemptFailed 1 10), Sleep 10000,
         SendMessage 7 (Retrying 2 3), Sleep 5000,
         SendChatAction 7 ''upload_document'',
         ExecuteTool ''translate_pdf''
           [(''filePath'', ''/app/temp/42_doc.pdf''), (''sourceLang'', ''en''),
            (''targetLang'', ''es'')],
         Stat ''/app/temp/translated_42_doc.pdf'',
         SendDocument 7 ''/app/temp/translated_42_doc.pdf'',
         SendMessage 7 (TranslationCompleted ''42_doc.pdf'' ''N/A''),
         SendMessage 7 (AttemptFailed 2 20), Sleep 20000,
         SendMessage 7 (Retrying 3 3), Sleep 5000,
         SendChatAction 7 ''upload_document'',
         ExecuteTool ''translate_pdf''
           [(''filePath'', ''/app/temp/42_doc.pdf''), (''sourceLang'', ''en''),
            (''targetLang'', ''es'')],
         Stat ''/app/temp/translated_42_doc.pdf'',
         SendDocument 7 ''/app/temp/translated_42_doc.pdf'',
         SendMessage 7 (TranslationCompleted ''42_doc.pdf'' ''N/A''),
         SendMessage 7 (TranslationFailed 3 ''Too Many Requests'')])"
proof -
  have thrown: "fst (tryBlock example_parsing_runtime example_job n example_rate_limited_io)
      = Inl (Error ''Too Many Requests'')" for n
    by (simp add: example_delivering_attempt)
  have other: "\<not> isTimeoutError (Error ''Too Many Requests'')"
    by (simp add: isTimeoutError_def Error_def startsWith_def)
  have notice: "send_attempt_failed example_rate_limited_io = Inr ()"
    and accepted: "send_document example_rate_limited_io = Inr ()"
    by (simp_all add: example_rate_limited_io_def example_io_def)
  have shown: "failureText (Some (Error ''Too Many Requests'')) = ''Too Many Requests''"
    by (simp add: failureText_def or_else_def Error_def)
  have chat: "chatId example_job = 7"
    by (simp add: example_job_def)
  have run: "processTranslationInBackground example_parsing_runtime example_job
               (\<lambda>n. example_rate_limited_io) (Inr ())
      = (Inr (),
         snd (tryBlock example_parsing_runtime example_job 1 example_rate_limited_io)
         @ [SendMessage (chatId example_job) (AttemptFailed 1 10), Sleep 10000]
         @ snd (tryBlock example_parsing_runtime example_job 2 example_rate_limited_io)
         @ [SendMessage (chatId example_job) (AttemptFailed 2 20), Sleep 20000]
         @ snd (tryBlock example_parsing_runtime example_job 3 example_rate_limited_io)
         @ [SendMessage (chatId example_job)
              (TranslationFailed 3 (failureText (Some (Error ''Too Many Requests''))))])"
    using three_failures_run [of example_parsing_runtime example_job
        "\<lambda>n. example_rate_limited_io" _ _ _ "Inr ()",
        OF thrown thrown thrown other other other notice notice]
    by simp
  have whole: "processTranslationInBackground example_parsing_runtime example_job
         (\<lambda>n. example_rate_limited_io) (Inr ())
     = (Inr (),
        [SendChatAction 7 ''upload_document'',
         ExecuteTool ''translate_pdf''
           [(''filePath'', ''/app/temp/42_doc.pdf''), (''sourceLang'', ''en''),
            (''targetLang'', ''es'')],
         Stat ''/app/temp/translated_42_doc.pdf'',
         SendDocument 7 ''/app/temp/translated_42_doc.pdf'',
         SendMessage 7 (TranslationCompleted ''42_doc.pdf'' ''N/A''),
         SendMessage 7 (AttemptFailed 1 10), Sleep 10000,
         SendMessage 7 (Retrying 2 3), Sleep 5000,
         SendChatAction 7 ''upload_document'',
         ExecuteTool ''translate_pdf''
           [(''filePath'', ''/app/temp/42_doc.pdf''), (''sourceLang'', ''en''),
            (''targetLang'', ''es'')],
         Stat ''/app/temp/translated_42_doc.pdf'',
         SendDocument 7 ''/app/temp/translated_42_doc.pdf'',
         SendMessage 7 (TranslationCompleted ''42_doc.pdf'' ''N/A''),
         SendMessage 7 (AttemptFailed 2 20), Sleep 20000,
         SendMessage 7 (Retrying 3 3), Sleep 5000,
         SendChatAction 7 ''upload_document'',
         ExecuteTool ''translate_pdf''
           [(''filePath'', ''/app/temp/42_doc.pdf''), (''sourceLang'', ''en''),
            (''targetLang'', ''es'')],
         Stat ''/app/temp/translated_42_doc.pdf'',
         SendDocument 7 ''/app/temp/translated_42_doc.pdf'',
         SendMessage 7 (TranslationCompleted ''42_doc.pdf'' ''N/A''),
         SendMessage 7 (TranslationFailed 3 ''Too Many Requests'')])"
    unfolding run by (simp add: example_delivering_attempt shown chat)
  from thrown other accepted whole show ?thesis by simp
qed

lemma lastSegment_join:
  assumes "CHR ''/'' \<notin> set entry"
  shows "lastSegment (join dir entry) = entry"
proof -
  have "takeWhile (\<lambda>c. c \<noteq> CHR ''/'') (rev entry @ CHR ''/'' # rev dir)
          = rev entry @ takeWhile (\<lambda>c. c \<noteq> CHR ''/'') (CHR ''/'' # rev dir)"
    by (rule takeWhile_append2) (use assms in auto)
  then show ?thesis
    by (simp add: lastSegment_def join_def)
qed

lemma endsWith_append: "endsWith (xs @ ys) ys"
  by (simp add: endsWith_def)

lemma startsWith_append: "startsWith (xs @ ys) xs"
  by (simp add: startsWith_def)

lemma digit_not_slash: "isDigit c \<Longrightarrow> c \<noteq> CHR ''/''"
  by (auto simp: isDigit_def)

lemma stripDigitsPrefix_upload:
  assumes "uid \<noteq> []" and "list_all isDigit uid"
  shows "stripDigitsPrefix (uid @ ''_'' @ file_name) = file_name"
proof -
  have all: "\<And>c. c \<in> set uid \<Longrightarrow> isDigit c"
    using assms(2) by (simp add: list_all_iff)
  have u: "\<not> isDigit CHR ''_''"
    by (simp add: isDigit_def)
  have t: "takeWhile isDigit (uid @ CHR ''_'' # file_name) = uid"
    using all u by (simp add: takeWhile_append2)
  have d: "dropWhile isDigit (uid @ CHR ''_'' # file_name) = CHR ''_'' # file_name"
    using all u by (simp add: dropWhile_append2)
  show ?thesis
    using assms(1) by (simp add: stripDigitsPrefix_def t d startsWith_def)
qed

lemma or_else_empty: "or_else s [] = s"
  by (simp add: or_else_def)

lemma findTranslatedFile_find:
  "findTranslatedFile files path =
     find (\<lambda>f. startsWith f ''translated_''
                \<and> endsWith f (stripDigitsPrefix (lastSegment path))) files"
  by (simp add: findTranslatedFile_def or_else_empty)

lemma find_Some_holds: "find P xs = Some x \<Longrightarrow> x \<in> set xs \<and> P x"
  by (induction xs) (auto split: if_splits)

lemma timeoutCheck_nothing:
  assumes "fs_readdir io = Inr files"
    and "findTranslatedFile files (filePath job) = None"
  shows "timeoutCheck rt job io =
           (Inr FallThrough, [Sleep 10000, ReadDir (join (cwd rt) ''temp'')])"
  using assms by (simp add: timeoutCheck_def Let_def io_bind_def io_call_def io_return_def)

lemma timeoutCheck_found_trace:
  assumes "fs_readdir io = Inr files"
    and "findTranslatedFile files (filePath job) = Some found"
  shows "timeoutCheck rt job io =
           (case send_found_document io of
              Inl e \<Rightarrow>
                (Inl e,
                 [Sleep 10000, ReadDir (join (cwd rt) ''temp''),
                  SendDocument (chatId job) (join (join (cwd rt) ''temp'') found)])
            | Inr u \<Rightarrow>
                (case send_found_completed io of Inl e \<Rightarrow> Inl e | Inr u \<Rightarrow> Inr ReturnNow,
                 [Sleep 10000, ReadDir (join (cwd rt) ''temp''),
                  SendDocument (chatId job) (join (join (cwd rt) ''temp'') found),
                  SendMessage (chatId job) CompletedDespiteTimeout]))"
  using assms
  by (simp add: timeoutCheck_def Let_def io_bind_def io_call_def io_return_def
      split: sum.splits)

lemma catchBlock_found_trace:
  assumes "isTimeoutError error" and "fs_readdir io = Inr files"
    and "findTranslatedFile files (filePath job) = Some found"
  shows "catchBlock rt job attempt io error = timeoutCheck rt job io"
  using assms(1) timeoutCheck_found_trace [OF assms(2,3), of rt]
  by (simp add: catchBlock_def io_bind_def io_return_def split: sum.splits)

lemma retryLoop_ends_in_catch:
  assumes "attempt < MAX_RETRIES"
    and "tryBlock rt job (Suc attempt) (world (Suc attempt)) = (Inl error, tr)"
    and "catchBlock rt job (Suc attempt) (world (Suc attempt)) error = (r, tr2)"
    and "r \<noteq> Inr FallThrough"
  shows "retryLoop rt job world attempt lastError =
           (case r of Inl e \<Rightarrow> Inl e | Inr c \<Rightarrow> Inr Returned, tr @ tr2)"
  using assms(4)
  by (subst retryLoop.simps)
     (auto simp: assms(1,2,3) split: sum.splits catch_outcome.splits)

lemma catchBlock_timeout_trace:
  assumes "isTimeoutError error"
  shows "\<exists>rest. snd (catchBlock rt job attempt io error)
           = Sleep 10000 # ReadDir (join (cwd rt) ''temp'') # rest"
  using assms
  by (simp add: catchBlock_def timeoutCheck_def Let_def snd_io_bind io_call_def)

lemma retryLoop_trace_after_throw:
  assumes "attempt < MAX_RETRIES"
    and "tryBlock rt job (Suc attempt) (world (Suc attempt)) = (Inl error, tr)"
  shows "\<exists>rest. snd (retryLoop rt job world attempt lastError)
           = tr @ snd (catchBlock rt job (Suc attempt) (world (Suc attempt)) error) @ rest"
  by (subst retryLoop.simps)
     (auto simp: assms split: prod.splits sum.splits catch_outcome.splits)

text \<open>
  C3. Suppose an attempt (any of the three) throws an error whose message contains
  \<^verbatim>\<open>timeout\<close> or whose code is -32001. Then the loop next waits 10 seconds and
  lists the temp directory. The search goes through the listing in its order for the
  first file whose name starts with \<^verbatim>\<open>translated_\<close> and ends with the last segment
  of the job's file path, a leading run of digits with its underscore removed; for an
  upload stored as user id, underscore, file name, that is the file name. If there
  is such a file, the loop sends it from the temp directory and then, when Telegram
  accepted it, the completion message; the loop ends there with no further attempt,
  returning when both sends went through and throwing the send's error otherwise.
  For the first attempt this trace is the whole trace of the function. If there is
  no such file, the catch block sends nothing from the directory and goes on to the
  backoff, as after any other error.
\<close>

theorem timeout_recovery_delivers_without_retry:
  assumes "attempt < MAX_RETRIES"
    and "tryBlock rt job (Suc attempt) (world (Suc attempt)) = (Inl error, tr)"
    and "includes_str (message error) ''timeout'' \<or> code error = NumCode (- 32001)"
  defines "pattern \<equiv>
      (\<lambda>f. startsWith f ''translated_''
            \<and> endsWith f (stripDigitsPrefix (lastSegment (filePath job))))"
  shows "(\<exists>rest. snd (retryLoop rt job world attempt lastError)
                  = tr @ Sleep 10000 # ReadDir (join (cwd rt) ''temp'') # rest)
       \<and> (fs_readdir (world (Suc attempt)) = Inr files
          \<and> find pattern files = Some found \<longrightarrow>
            found \<in> set files
            \<and> startsWith found ''translated_''
            \<and> endsWith found (stripDigitsPrefix (lastSegment (filePath job)))
            \<and> snd (retryLoop rt job world attempt lastError) =
                tr @ [Sleep 10000, ReadDir (join (cwd rt) ''temp''),
                      SendDocument (chatId job) (join (join (cwd rt) ''temp'') found)]
                   @ (case send_found_document (world (Suc attempt)) of
                        Inl e \<Rightarrow> []
                      | Inr u \<Rightarrow> [SendMessage (chatId job) CompletedDespiteTimeout])
            \<and> fst (retryLoop rt job world attempt lastError) =
                (case send_found_document (world (Suc attempt)) of
                   Inl e \<Rightarrow> Inl e
                 | Inr u \<Rightarrow>
                     (case send_found_completed (world (Suc attempt)) of
                        Inl e \<Rightarrow> Inl e
                      | Inr u \<Rightarrow> Inr Returned))
            \<and> (attempt = 0 \<longrightarrow>
                 snd (processTranslationInBackground rt job world send_failed)
                   = snd (retryLoop rt job world attempt lastError)))
       \<and> (fs_readdir (world (Suc attempt)) = Inr files \<and> find pattern files = None \<longrightarrow>
            catchBlock rt job (Suc attempt) (world (Suc attempt)) error =
              (fst (backoff job (Suc attempt) (world (Suc attempt))),
               [Sleep 10000, ReadDir (join (cwd rt) ''temp'')]
               @ snd (backoff job (Suc attempt) (world (Suc attempt)))))
       \<and> (filePath job = localFilePath rt uid file_name \<and> uid \<noteq> [] \<and> list_all isDigit uid
          \<and> CHR ''/'' \<notin> set file_name \<longrightarrow>
            stripDigitsPrefix (lastSegment (filePath job)) = file_name)"
proof (intro conjI impI)
  have timeout: "isTimeoutError error"
    using assms(3) by (simp add: isTimeoutError_def)
  have search: "findTranslatedFile files (filePath job) = find pattern files" for files
    unfolding pattern_def by (rule findTranslatedFile_find)
  obtain r1 where r1: "snd (catchBlock rt job (Suc attempt) (world (Suc attempt)) error)
      = Sleep 10000 # ReadDir (join (cwd rt) ''temp'') # r1"
    using catchBlock_timeout_trace [OF timeout] by blast
  obtain r2 where "snd (retryLoop rt job world attempt lastError)
      = tr @ snd (catchBlock rt job (Suc attempt) (world (Suc attempt)) error) @ r2"
    using retryLoop_trace_after_throw [of attempt rt job world error tr lastError] assms(1,2)
    by blast
  then have "snd (retryLoop rt job world attempt lastError)
      = tr @ Sleep 10000 # ReadDir (join (cwd rt) ''temp'') # (r1 @ r2)"
    by (simp add: r1)
  then show "\<exists>rest. snd (retryLoop rt job world attempt lastError)
                  = tr @ Sleep 10000 # ReadDir (join (cwd rt) ''temp'') # rest"
    by blast
  let ?io = "world (Suc attempt)"
  {
    assume listed: "fs_readdir ?io = Inr files \<and> find pattern files = Some found"
    then have found: "fs_readdir ?io = Inr files
        \<and> findTranslatedFile files (filePath job) = Some found"
      by (simp add: search)
    have "found \<in> set files \<and> pattern found"
      using listed find_Some_holds [of pattern files found] by simp
    then show "found \<in> set files" and "startsWith found ''translated_''"
      and "endsWith found (stripDigitsPrefix (lastSegment (filePath job)))"
      by (simp_all add: pattern_def)
    let ?sent = "[Sleep 10000, ReadDir (join (cwd rt) ''temp''),
                  SendDocument (chatId job) (join (join (cwd rt) ''temp'') found)]"
    have caught: "catchBlock rt job (Suc attempt) ?io error =
        (case send_found_document ?io of
           Inl e \<Rightarrow> (Inl e, ?sent)
         | Inr u \<Rightarrow>
             (case send_found_completed ?io of Inl e \<Rightarrow> Inl e | Inr u \<Rightarrow> Inr ReturnNow,
              ?sent @ [SendMessage (chatId job) CompletedDespiteTimeout]))"
      using timeout found
      by (simp add: catchBlock_found_trace timeoutCheck_found_trace split: sum.splits)
    obtain r tr2 where c: "catchBlock rt job (Suc attempt) ?io error = (r, tr2)"
      by (cases "catchBlock rt job (Suc attempt) ?io error")
    have r: "r = (case send_found_document ?io of
                    Inl e \<Rightarrow> Inl e
                  | Inr u \<Rightarrow> (case send_found_completed ?io of
                                Inl e \<Rightarrow> Inl e | Inr u \<Rightarrow> Inr ReturnNow))"
      and tr2: "tr2 = ?sent @ (case send_found_document ?io of
                                 Inl e \<Rightarrow> []
                               | Inr u \<Rightarrow> [SendMessage (chatId job) CompletedDespiteTimeout])"
      using caught c by (auto split: sum.splits)
    have ends: "r \<noteq> Inr FallThrough"
      by (auto simp: r split: sum.splits)
    have loop: "retryLoop rt job world attempt lastError =
        (case r of Inl e \<Rightarrow> Inl e | Inr c \<Rightarrow> Inr Returned, tr @ tr2)" for lastError
      using assms(1,2) c ends by (rule retryLoop_ends_in_catch)
    show "snd (retryLoop rt job world attempt lastError) =
            tr @ ?sent @ (case send_found_document ?io of
                            Inl e \<Rightarrow> []
                          | Inr u \<Rightarrow> [SendMessage (chatId job) CompletedDespiteTimeout])"
      by (simp add: loop tr2)
    show "fst (retryLoop rt job world attempt lastError) =
            (case send_found_document ?io of
               Inl e \<Rightarrow> Inl e
             | Inr u \<Rightarrow> (case send_found_completed ?io of
                           Inl e \<Rightarrow> Inl e | Inr u \<Rightarrow> Inr Returned))"
      by (simp add: loop r split: sum.splits)
    assume "attempt = 0"
    then show "snd (processTranslationInBackground rt job world send_failed)
                 = snd (retryLoop rt job world attempt lastError)"
      using loop [of None] loop [of lastError]
      by (cases r) (simp_all add: processTranslationInBackground_def io_bind_def io_return_def)
  }
  {
    assume "fs_readdir ?io = Inr files \<and> find pattern files = None"
    then have "timeoutCheck rt job ?io =
        (Inr FallThrough, [Sleep 10000, ReadDir (join (cwd rt) ''temp'')])"
      using timeoutCheck_nothing [of ?io files job rt] by (simp add: search)
    then show "catchBlock rt job (Suc attempt) ?io error =
        (fst (backoff job (Suc attempt) ?io),
         [Sleep 10000, ReadDir (join (cwd rt) ''temp'')] @ snd (backoff job (Suc attempt) ?io))"
      using timeout
      by (cases "backoff job (Suc attempt) ?io") (simp add: catchBlock_def io_bind_def)
  }
  {
    assume upload: "filePath job = localFilePath rt uid file_name \<and> uid \<noteq> []
        \<and> list_all isDigit uid \<and> CHR ''/'' \<notin> set file_name"
    then have "CHR ''/'' \<notin> set uid"
      using digit_not_slash by (auto simp: list_all_iff)
    then have "CHR ''/'' \<notin> set (uid @ ''_'' @ file_name)"
      using upload by simp
    then have "lastSegment (localFilePath rt uid file_name) = uid @ ''_'' @ file_name"
      unfolding localFilePath_def by (rule lastSegment_join)
    then show "stripDigitsPrefix (lastSegment (filePath job)) = file_name"
      using upload stripDigitsPrefix_upload [of uid file_name] by simp
  }
qed

lemma example_timeout_attempt:
  "tryBlock example_runtime example_job (Suc 0) example_timeout_io
     = (Inl \<lparr>message = ''MCP error -32001: Request timed out'', code = NumCode (- 32001)\<rparr>,
        [SendChatAction 7 ''upload_document'',
         ExecuteTool ''translate_pdf''
           [(''filePath'', ''/app/temp/42_doc.pdf''), (''sourceLang'', ''en''),
            (''targetLang'', ''es'')]])"
proof -
  have tools: "availableTools example_connected = [(''pdf'', [toMCPTool example_tool])]"
    and cl: "clients example_connected = [(''pdf'', 1)]"
    by (simp_all add: example_connected_def connect_def example_connect_io_def
        example_config_def newMCPClient_def log_add_def Let_def)
  have owner: "findTargetServer ''translate_pdf'' example_connected = Some ''pdf''"
    by (simp add: findTargetServer_def tools hasTool_def toMCPTool_def example_tool_def)
  have lang: "detectTargetLang example_runtime (instructions example_job) = ''es''"
    by (simp add: detectTargetLang_def example_runtime_def example_job_def startsWith_def)
  have answered: "fst (executeTool ''translate_pdf'' arguments
                (\<lambda>call. Inl \<lparr>message = ''MCP error -32001: Request timed out'',
                               code = NumCode (- 32001)\<rparr>) example_connected)
      = Inl \<lparr>message = ''MCP error -32001: Request timed out'', code = NumCode (- 32001)\<rparr>"
    for arguments
    using executeTool_found(1) [of "''translate_pdf''" example_connected "''pdf''" 1 arguments
        "\<lambda>call. Inl \<lparr>message = ''MCP error -32001: Request timed out'',
                       code = NumCode (- 32001)\<rparr>"] owner
    by (simp add: cl)
  show ?thesis
    by (simp add: tryBlock_def io_bind_def io_call_def io_return_def example_timeout_io_def
        example_io_def answered translateArguments_def lang)
       (simp add: example_job_def)
qed

theorem timeout_recovery_delivers_without_retry_witness:
  "snd (processTranslationInBackground example_runtime example_job (\<lambda>n. example_timeout_io) (Inr ()))
     = [SendChatAction 7 ''upload_document'',
        ExecuteTool ''translate_pdf''
          [(''filePath'', ''/app/temp/42_doc.pdf''), (''sourceLang'', ''en''),
           (''targetLang'', ''es'')],
        Sleep 10000, ReadDir ''/app/temp'',
        SendDocument 7 ''/app/temp/translated_42_doc.pdf'',
        SendMessage 7 CompletedDespiteTimeout]
   \<and> fst (retryLoop example_runtime example_job (\<lambda>n. example_timeout_io) 0 None) = Inr Returned
   \<and> stripDigitsPrefix (lastSegment (filePath example_job)) = ''doc.pdf''"
proof -
  have first: "(0::nat) < MAX_RETRIES"
    by (simp add: MAX_RETRIES_def)
  have code: "includes_str (message \<lparr>message = ''MCP error -32001: Request timed out'',
                                      code = NumCode (- 32001)\<rparr>) ''timeout''
              \<or> code \<lparr>message = ''MCP error -32001: Request timed out'',
                       code = NumCode (- 32001)\<rparr> = NumCode (- 32001)"
    by simp
  have stripped: "stripDigitsPrefix (lastSegment (filePath example_job)) = ''doc.pdf''"
    by (simp add: example_job_def lastSegment_def stripDigitsPrefix_def isDigit_def
        startsWith_def)
  have found: "fs_readdir example_timeout_io = Inr [''42_doc.pdf'', ''translated_42_doc.pdf'']
      \<and> find (\<lambda>f. startsWith f ''translated_''
                  \<and> endsWith f (stripDigitsPrefix (lastSegment (filePath example_job))))
            [''42_doc.pdf'', ''translated_42_doc.pdf''] = Some ''translated_42_doc.pdf''"
    by (simp add: stripped) (simp add: example_timeout_io_def example_io_def startsWith_def
        endsWith_def)
  have upload: "filePath example_job = localFilePath example_runtime ''42'' ''doc.pdf''
      \<and> ''42'' \<noteq> [] \<and> list_all isDigit ''42'' \<and> CHR ''/'' \<notin> set ''doc.pdf''"
    by (simp add: example_job_def localFilePath_def join_def example_runtime_def isDigit_def)
  have sends: "send_found_document example_timeout_io = Inr ()"
    "send_found_completed example_timeout_io = Inr ()"
    by (simp_all add: example_timeout_io_def example_io_def)
  note run = timeout_recovery_delivers_without_retry [where attempt = 0 and rt = example_runtime
        and job = example_job and world = "\<lambda>n. example_timeout_io"
        and files = "[''42_doc.pdf'', ''translated_42_doc.pdf'']"
        and found = "''translated_42_doc.pdf''" and lastError = None and send_failed = "Inr ()"
        and uid = "''42''" and file_name = "''doc.pdf''",
        OF first example_timeout_attempt code]
  have name: "stripDigitsPrefix (lastSegment (filePath example_job)) = ''doc.pdf''"
    using run upload by blast
  have sent: "snd (processTranslationInBackground example_runtime example_job
                     (\<lambda>n. example_timeout_io) (Inr ()))
     = [SendChatAction 7 ''upload_document'',
        ExecuteTool ''translate_pdf''
          [(''filePath'', ''/app/temp/42_doc.pdf''), (''sourceLang'', ''en''),
           (''targetLang'', ''es'')],
        Sleep 10000, ReadDir ''/app/temp'',
        SendDocument 7 ''/app/temp/translated_42_doc.pdf'',
        SendMessage 7 CompletedDespiteTimeout]
    \<and> fst (retryLoop example_runtime example_job (\<lambda>n. example_timeout_io) 0 None)
        = Inr Returned"
    using run found
    by (simp add: sends example_runtime_def example_job_def join_def)
  from sent name show ?thesis by simp
qed

lemma findTranslatedFile_upload:
  assumes "uid \<noteq> []" and "list_all isDigit uid" and "CHR ''/'' \<notin> set file_name"
  shows "findTranslatedFile files (localFilePath rt uid file_name)
           = find (\<lambda>f. startsWith f ''translated_'' \<and> endsWith f file_name) files"
proof -
  have "CHR ''/'' \<notin> set uid"
    using assms(2) digit_not_slash by (auto simp: list_all_iff)
  then have "CHR ''/'' \<notin> set (uid @ ''_'' @ file_name)"
    using assms(3) by simp
  then have seg: "lastSegment (localFilePath rt uid file_name) = uid @ ''_'' @ file_name"
    unfolding localFilePath_def by (rule lastSegment_join)
  have "uid @ ''_'' @ file_name \<noteq> []"
    using assms(1) by simp
  then have keep: "or_else (uid @ ''_'' @ file_name) [] = uid @ ''_'' @ file_name"
    by (simp only: or_else_def if_False)
  show ?thesis
    unfolding findTranslatedFile_def seg keep Let_def
    by (simp only: stripDigitsPrefix_upload [OF assms(1,2)])
qed

text \<open>
  C9. For an upload stored under the temp directory as the user id (a non-empty
  digit string), an underscore and a file name without a slash, the search returns
  the first file of the listing, in the listing's order, that starts with
  \<^verbatim>\<open>translated_\<close> and ends with the file name. The user id plays no part: another
  user's upload of the same file name gives the same result on the same listing, and
  any file named \<^verbatim>\<open>translated_\<close>, anything, then the file name is accepted. The
  file the search returns is the one \<open>timeoutCheck\<close> sends.
\<close>

theorem artifact_search_ignores_user:
  assumes "uid \<noteq> []" and "list_all isDigit uid" and "CHR ''/'' \<notin> set file_name"
  shows "findTranslatedFile files (localFilePath rt uid file_name)
           = find (\<lambda>f. startsWith f ''translated_'' \<and> endsWith f file_name) files
       \<and> (other \<noteq> [] \<and> list_all isDigit other \<longrightarrow>
            findTranslatedFile files (localFilePath rt other file_name)
              = findTranslatedFile files (localFilePath rt uid file_name))
       \<and> findTranslatedFile [''translated_'' @ middle @ file_name] (localFilePath rt uid file_name)
           = Some (''translated_'' @ middle @ file_name)
       \<and> (filePath job = localFilePath rt uid file_name \<and> fs_readdir io = Inr files
          \<and> find (\<lambda>f. startsWith f ''translated_'' \<and> endsWith f file_name) files = Some found
          \<and> send_found_document io = Inr () \<and> send_found_completed io = Inr () \<longrightarrow>
            timeoutCheck rt job io =
              (Inr ReturnNow,
               [Sleep 10000, ReadDir (join (cwd rt) ''temp''),
                SendDocument (chatId job) (join (join (cwd rt) ''temp'') found),
                SendMessage (chatId job) CompletedDespiteTimeout]))"
proof (intro conjI impI)
  show search: "findTranslatedFile files (localFilePath rt uid file_name)
           = find (\<lambda>f. startsWith f ''translated_'' \<and> endsWith f file_name) files" for files
    using assms by (rule findTranslatedFile_upload)
  show "findTranslatedFile files (localFilePath rt other file_name)
          = findTranslatedFile files (localFilePath rt uid file_name)"
    if "other \<noteq> [] \<and> list_all isDigit other"
    using that by (simp add: search findTranslatedFile_upload assms(3))
  show "findTranslatedFile [''translated_'' @ middle @ file_name] (localFilePath rt uid file_name)
           = Some (''translated_'' @ middle @ file_name)"
    using startsWith_append [of "''translated_''" "middle @ file_name"]
      endsWith_append [of "''translated_'' @ middle" file_name]
    by (simp add: search)
  show "timeoutCheck rt job io =
              (Inr ReturnNow,
               [Sleep 10000, ReadDir (join (cwd rt) ''temp''),
                SendDocument (chatId job) (join (join (cwd rt) ''temp'') found),
                SendMessage (chatId job) CompletedDespiteTimeout])"
    if a: "filePath job = localFilePath rt uid file_name \<and> fs_readdir io = Inr files
          \<and> find (\<lambda>f. startsWith f ''translated_'' \<and> endsWith f file_name) files = Some found
          \<and> send_found_document io = Inr () \<and> send_found_completed io = Inr ()"
  proof (rule timeoutCheck_found)
    show "fs_readdir io = Inr files" using a by simp
    show "findTranslatedFile files (filePath job) = Some found" using a by (simp add: search)
    show "send_found_document io = Inr ()" using a by simp
    show "send_found_completed io = Inr ()" using a by simp
  qed
qed

theorem artifact_search_ignores_user_witness:
  "findTranslatedFile [''222_doc.pdf'', ''translated_111_doc.pdf'', ''translated_222_doc.pdf'']
       (localFilePath example_runtime ''222'' ''doc.pdf'')
     = Some ''translated_111_doc.pdf''
   \<and> findTranslatedFile [''222_doc.pdf'', ''translated_111_doc.pdf'', ''translated_222_doc.pdf'']
       (localFilePath example_runtime ''111'' ''doc.pdf'')
     = Some ''translated_111_doc.pdf''"
proof -
  have d2: "''222'' \<noteq> [] \<and> list_all isDigit ''222''"
    and d1: "''111'' \<noteq> [] \<and> list_all isDigit ''111''"
    and n: "CHR ''/'' \<notin> set ''doc.pdf''"
    by (simp_all add: isDigit_def)
  have f: "find (\<lambda>f. startsWith f ''translated_'' \<and> endsWith f ''doc.pdf'')
             [''222_doc.pdf'', ''translated_111_doc.pdf'', ''translated_222_doc.pdf'']
           = Some ''translated_111_doc.pdf''"
    by (simp add: startsWith_def endsWith_def)
  show ?thesis
    using artifact_search_ignores_user [of "''222''" "''doc.pdf''"
        "[''222_doc.pdf'', ''translated_111_doc.pdf'', ''translated_222_doc.pdf'']"
        example_runtime "''111''"] d1 d2 n f
    by simp
qed

end
